theory Spec2Isabelle
  imports Complex_Main
begin

section \<open>Data model\<close>

text \<open>
  The gesture engine of \<^verbatim>\<open>GestureRecognizer\<close>, in two of its revisions: the
  reference revision (the one with the \<^verbatim>\<open>isThumbsUp\<close> check, buffer of 5, three
  required detections, 800 ms between events) and the simplified revision of
  \<^verbatim>\<open>src/utils/gestureRecognition.ts\<close> (buffer of 3, two required detections,
  300 ms). Definitions of the simplified revision whose source name is also used by the
  reference revision carry the suffix \<open>_simplified\<close>.

  The arithmetic of the program itself is modelled over exact reals: comparisons,
  subtraction, absolute value and square root are the mathematical ones, and a
  coordinate is never NaN. The one NaN the code can compute by itself (a ratio over an
  empty landmark array) is kept, as \<open>None\<close> of type \<open>jsnumber\<close>. Where a property
  builds a new frame by arithmetic (the mirror image \<open>1 - x\<close>), the coordinates of that
  frame are rounded to IEEE doubles, since only doubles can be handed to the program.
  \<^verbatim>\<open>Date.now()\<close> is an integer number of milliseconds.
\<close>

type_synonym jsnumber = "real option"

text \<open>\<^verbatim>\<open>interface HandLandmark { x: number; y: number; z?: number }\<close>\<close>

record HandLandmark =
  lm_x :: real
  lm_y :: real
  lm_z :: "real option"

text \<open>
  The gesture labels are the string literals the classifier returns:
  \<^verbatim>\<open>'fist'\<close>, \<^verbatim>\<open>'open_palm'\<close>, \<^verbatim>\<open>'thumbs_up'\<close>, \<^verbatim>\<open>'pointing'\<close>, \<^verbatim>\<open>'peace'\<close>,
  \<^verbatim>\<open>'ok_sign'\<close>, \<^verbatim>\<open>'rock_on'\<close> and \<^verbatim>\<open>'unknown'\<close>.
\<close>

datatype gesture = Fist | OpenPalm | ThumbsUp | Pointing | Peace | OkSign | RockOn | Unknown

text \<open>\<^verbatim>\<open>interface GestureResult { type: string; confidence: number; landmarks?: HandLandmark[] }\<close>\<close>

record GestureResult =
  gr_type :: gesture
  gr_confidence :: jsnumber
  gr_landmarks :: "HandLandmark list"

text \<open>
  Reading a property of \<^verbatim>\<open>undefined\<close> throws a \<^verbatim>\<open>TypeError\<close>; it is the only
  exception the engine can raise.
\<close>

datatype error = TypeError

definition bindE :: "error + 'a \<Rightarrow> ('a \<Rightarrow> error + 'b) \<Rightarrow> error + 'b" where
  "bindE m f = (case m of Inl e \<Rightarrow> Inl e | Inr v \<Rightarrow> f v)"

text \<open>\<^verbatim>\<open>landmarks[i]\<close>: \<^verbatim>\<open>undefined\<close> (here \<open>None\<close>) beyond the end of the array.\<close>

definition getLandmark :: "HandLandmark list \<Rightarrow> nat \<Rightarrow> HandLandmark option" where
  "getLandmark landmarks i = (if i < length landmarks then Some (landmarks ! i) else None)"

text \<open>\<^verbatim>\<open>p.x\<close> and \<^verbatim>\<open>p.y\<close>, which throw when \<^verbatim>\<open>p\<close> is \<^verbatim>\<open>undefined\<close>.\<close>

fun readX :: "HandLandmark option \<Rightarrow> error + real" where
  "readX None = Inl TypeError"
| "readX (Some p) = Inr (lm_x p)"

fun readY :: "HandLandmark option \<Rightarrow> error + real" where
  "readY None = Inl TypeError"
| "readY (Some p) = Inr (lm_y p)"

section \<open>The reference revision: finger states and classifier\<close>

text \<open>The constant index arrays of \<^verbatim>\<open>classifyGesture\<close>.\<close>

definition fingerTips :: "nat list" where
  "fingerTips = [4, 8, 12, 16, 20]"

definition fingerPips :: "nat list" where
  "fingerPips = [3, 6, 10, 14, 18]"

definition fingerMcps :: "nat list" where
  "fingerMcps = [2, 5, 9, 13, 17]"

text \<open>
  One round of the loop of \<^verbatim>\<open>getFingersUp\<close>: the three reads, then
  \<^verbatim>\<open>tipY < pipY && pipY < mcpY ? 1 : 0\<close>.
\<close>

definition fingerUp :: "HandLandmark list \<Rightarrow> nat list \<Rightarrow> nat list \<Rightarrow> nat list \<Rightarrow> nat \<Rightarrow> error + nat" where
  "fingerUp landmarks tips pips mcps i =
     bindE (readY (getLandmark landmarks (tips ! i))) (\<lambda>tipY.
     bindE (readY (getLandmark landmarks (pips ! i))) (\<lambda>pipY.
     bindE (readY (getLandmark landmarks (mcps ! i))) (\<lambda>mcpY.
       Inr (if tipY < pipY \<and> pipY < mcpY then 1 else 0))))"

text \<open>The loop \<^verbatim>\<open>for (let i = 1; i < 5; i++)\<close>, over the indices still to visit.\<close>

fun otherFingers :: "HandLandmark list \<Rightarrow> nat list \<Rightarrow> nat list \<Rightarrow> nat list \<Rightarrow> nat list \<Rightarrow> error + nat list" where
  "otherFingers landmarks tips pips mcps [] = Inr []"
| "otherFingers landmarks tips pips mcps (i # rest) =
     bindE (fingerUp landmarks tips pips mcps i) (\<lambda>f.
     bindE (otherFingers landmarks tips pips mcps rest) (\<lambda>fs. Inr (f # fs)))"

text \<open>
  \<^verbatim>\<open>getFingersUp\<close>: the thumb by the horizontal test that depends on the
  handedness (every string other than \<^verbatim>\<open>'Right'\<close> takes the left-hand branch), then the
  four other fingers. The thumb's MCP landmark is fetched but never read.
\<close>

definition getFingersUp :: "HandLandmark list \<Rightarrow> nat list \<Rightarrow> nat list \<Rightarrow> nat list \<Rightarrow> string \<Rightarrow> error + nat list" where
  "getFingersUp landmarks tips pips mcps handedness =
     (let thumbTip = getLandmark landmarks (tips ! 0);
          thumbIp = getLandmark landmarks (pips ! 0)
      in bindE (readX thumbTip) (\<lambda>tipX.
         bindE (readX thumbIp) (\<lambda>ipX.
         bindE (otherFingers landmarks tips pips mcps [1, 2, 3, 4]) (\<lambda>fs.
           Inr ((if handedness = ''Right''
                 then (if tipX > ipX then 1 else 0)
                 else (if tipX < ipX then 1 else 0)) # fs)))))"

text \<open>\<^verbatim>\<open>isThumbsUp\<close>: the thumb points upward and is extended away from the palm.\<close>

definition isThumbsUp :: "HandLandmark list \<Rightarrow> string \<Rightarrow> error + bool" where
  "isThumbsUp landmarks handedness =
     (let thumbTip = getLandmark landmarks 4;
          thumbMcp = getLandmark landmarks 2;
          indexMcp = getLandmark landmarks 5
      in bindE (readY thumbTip) (\<lambda>tipY.
         bindE (readY thumbMcp) (\<lambda>mcpY.
         bindE (readY indexMcp) (\<lambda>indexY.
         bindE (readX thumbTip) (\<lambda>tipX.
         bindE (readX indexMcp) (\<lambda>indexX.
           (let isPointingUp = (tipY < mcpY \<and> tipY < indexY);
                thumbDistance = \<bar>tipX - indexX\<bar>;
                isExtended = (thumbDistance > 0.05)
            in Inr (isPointingUp \<and> isExtended))))))))"

text \<open>
  \<^verbatim>\<open>isOkGesture\<close>: thumb tip and index tip closer than 0.05, and one of the middle,
  ring and pinky tips above its PIP joint.
\<close>

definition isOkGesture :: "HandLandmark list \<Rightarrow> error + bool" where
  "isOkGesture landmarks =
     (let thumbTip = getLandmark landmarks 4;
          indexTip = getLandmark landmarks 8
      in bindE (readX thumbTip) (\<lambda>tx.
         bindE (readX indexTip) (\<lambda>ix.
         bindE (readY thumbTip) (\<lambda>ty.
         bindE (readY indexTip) (\<lambda>iy.
         bindE (readY (getLandmark landmarks 12)) (\<lambda>y12.
         bindE (readY (getLandmark landmarks 10)) (\<lambda>y10.
         bindE (readY (getLandmark landmarks 16)) (\<lambda>y16.
         bindE (readY (getLandmark landmarks 14)) (\<lambda>y14.
         bindE (readY (getLandmark landmarks 20)) (\<lambda>y20.
         bindE (readY (getLandmark landmarks 18)) (\<lambda>y18.
           (let distance = sqrt ((tx - ix) ^ 2 + (ty - iy) ^ 2);
                middleUp = (y12 < y10);
                ringUp = (y16 < y14);
                pinkyUp = (y20 < y18)
            in Inr (distance < 0.05 \<and> (middleUp \<or> ringUp \<or> pinkyUp))))))))))))))"

text \<open>
  \<^verbatim>\<open>classifyGesture\<close>: the chain of \<^verbatim>\<open>else if\<close>, in the source's order. A frame
  that enters the thumb-only branch and fails \<^verbatim>\<open>isThumbsUp\<close> leaves the chain and
  reaches the final \<^verbatim>\<open>return 'unknown'\<close>. The operator \<^verbatim>\<open>&&\<close> evaluates
  \<^verbatim>\<open>isOkGesture\<close> only when thumb and index are both up; when it then answers
  \<^verbatim>\<open>false\<close> the chain goes on to the rock-on test, which is therefore written twice.
\<close>

definition classifyGesture :: "HandLandmark list \<Rightarrow> string \<Rightarrow> error + gesture" where
  "classifyGesture landmarks handedness =
     bindE (getFingersUp landmarks fingerTips fingerPips fingerMcps handedness) (\<lambda>fingersUp.
       (let fingerCount = foldl (\<lambda>sum finger. sum + finger) 0 fingersUp
        in if fingerCount = 0 then Inr Fist
           else if fingerCount = 5 then Inr OpenPalm
           else if fingersUp ! 1 = 1 \<and> fingerCount = 1 then Inr Pointing
           else if fingersUp ! 0 = 1 \<and> fingerCount = 1 then
             bindE (isThumbsUp landmarks handedness) (\<lambda>up.
               if up then Inr ThumbsUp else Inr Unknown)
           else if fingersUp ! 1 = 1 \<and> fingersUp ! 2 = 1 \<and> fingerCount = 2 then Inr Peace
           else if fingersUp ! 0 = 1 \<and> fingersUp ! 1 = 1 then
             bindE (isOkGesture landmarks) (\<lambda>ok.
               if ok then Inr OkSign
               else if fingersUp ! 1 = 1 \<and> fingersUp ! 4 = 1 \<and> fingerCount = 2 then Inr RockOn
               else Inr Unknown)
           else if fingersUp ! 1 = 1 \<and> fingersUp ! 4 = 1 \<and> fingerCount = 2 then Inr RockOn
           else Inr Unknown))"

section \<open>The reference revision: confidence\<close>

text \<open>
  The loop of \<^verbatim>\<open>calculateConfidence\<close>, with the two counters as accumulator
  (\<open>stabilityScore\<close>, \<open>visibilityScore\<close>). \<^verbatim>\<open>landmark.z || 0\<close> is 0 for a missing
  depth.
\<close>

fun confidenceLoop :: "HandLandmark list \<Rightarrow> nat \<times> nat \<Rightarrow> nat \<times> nat" where
  "confidenceLoop [] scores = scores"
| "confidenceLoop (landmark # rest) (stabilityScore, visibilityScore) =
     (let z = (case lm_z landmark of None \<Rightarrow> 0 | Some v \<Rightarrow> v)
      in confidenceLoop rest
           (if \<bar>z\<bar> < 0.1 then stabilityScore + 1 else stabilityScore,
            if lm_x landmark > 0.1 \<and> lm_x landmark < 0.9 \<and> lm_y landmark > 0.1 \<and> lm_y landmark < 0.9
            then visibilityScore + 1 else visibilityScore))"

text \<open>
  \<^verbatim>\<open>calculateConfidence\<close>. Over an empty array both ratios are \<^verbatim>\<open>0 / 0\<close>, that is
  NaN, and \<^verbatim>\<open>Math.min\<close> and \<^verbatim>\<open>Math.max\<close> pass NaN on.
\<close>

definition calculateConfidence :: "HandLandmark list \<Rightarrow> jsnumber" where
  "calculateConfidence landmarks =
     (case confidenceLoop landmarks (0, 0) of (stabilityScore, visibilityScore) \<Rightarrow>
        if length landmarks = 0 then None
        else (let stabilityRatio = real stabilityScore / real (length landmarks);
                  visibilityRatio = real visibilityScore / real (length landmarks);
                  confidence = stabilityRatio * 0.6 + visibilityRatio * 0.4
              in Some (max 0.5 (min 0.95 confidence))))"

section \<open>The stabilizer\<close>

text \<open>
  The \<^verbatim>\<open>frequency\<close> object, as an association list in insertion order, which is the
  order \<^verbatim>\<open>Object.keys\<close> lists string keys in.
  \<^verbatim>\<open>frequency[gesture] = (frequency[gesture] || 0) + 1\<close> keeps a present key in place
  and puts a new one last.
\<close>

fun increment :: "(gesture \<times> nat) list \<Rightarrow> gesture \<Rightarrow> (gesture \<times> nat) list" where
  "increment [] gesture = [(gesture, 1)]"
| "increment ((k, n) # rest) gesture =
     (if k = gesture then (k, n + 1) # rest else (k, n) # increment rest gesture)"

definition countFrequency :: "gesture list \<Rightarrow> (gesture \<times> nat) list" where
  "countFrequency buffer = foldl increment [] buffer"

text \<open>\<^verbatim>\<open>frequency[a]\<close>, read only at keys of the object.\<close>

definition frequencyOf :: "(gesture \<times> nat) list \<Rightarrow> gesture \<Rightarrow> nat" where
  "frequencyOf frequency a = (case map_of frequency a of None \<Rightarrow> 0 | Some n \<Rightarrow> n)"

text \<open>
  \<^verbatim>\<open>Object.keys(frequency).reduce((a, b) => frequency[a] > frequency[b] ? a : b)\<close>:
  a left fold that starts from the first key, so of two keys with the same count the
  later one wins. The buffer is not empty where this is called, so there is a first key.
\<close>

definition mostFrequentKey :: "(gesture \<times> nat) list \<Rightarrow> gesture option" where
  "mostFrequentKey frequency =
     (case map fst frequency of
        [] \<Rightarrow> None
      | k # keys \<Rightarrow>
          Some (foldl (\<lambda>a b. if frequencyOf frequency a > frequencyOf frequency b then a else b) k keys))"

text \<open>\<^verbatim>\<open>getMostFrequentGesture\<close> of the reference revision: three detections required.\<close>

definition getMostFrequentGesture :: "gesture list \<Rightarrow> gesture option" where
  "getMostFrequentGesture buffer =
     (if length buffer = 0 then None
      else (let frequency = countFrequency buffer
            in case mostFrequentKey frequency of
                 None \<Rightarrow> None
               | Some mostFrequent \<Rightarrow>
                   if frequencyOf frequency mostFrequent \<ge> 3 then Some mostFrequent else None))"

text \<open>\<^verbatim>\<open>this.gestureBuffer.push(gestureType)\<close>, then \<^verbatim>\<open>shift()\<close> when longer than 5.\<close>

definition pushGesture :: "gesture list \<Rightarrow> gesture \<Rightarrow> gesture list" where
  "pushGesture buffer gestureType =
     (let pushed = buffer @ [gestureType]
      in if length pushed > 5 then tl pushed else pushed)"

text \<open>
  The fields of the recognizer the stabilizer uses. \<open>onResultsCallback\<close> says whether a
  callback is registered (the field is not \<^verbatim>\<open>null\<close>).
\<close>

record RecognizerState =
  lastGestureTime :: int
  gestureBuffer :: "gesture list"
  onResultsCallback :: bool

definition initialState :: RecognizerState where
  "initialState = \<lparr>lastGestureTime = 0, gestureBuffer = [], onResultsCallback = False\<rparr>"

text \<open>
  The part of the tracker's result \<^verbatim>\<open>processResults\<close> reads: the landmark arrays of
  the detected hands (the field may be missing) and the handedness entries, whose label
  may be missing too.
\<close>

record Results =
  multiHandLandmarks :: "HandLandmark list list option"
  multiHandedness :: "string option list option"

text \<open>\<^verbatim>\<open>results.multiHandedness?.[0]?.label || 'Right'\<close>\<close>

definition handednessOf :: "Results \<Rightarrow> string" where
  "handednessOf results =
     (case multiHandedness results of
        None \<Rightarrow> ''Right''
      | Some [] \<Rightarrow> ''Right''
      | Some (None # _) \<Rightarrow> ''Right''
      | Some (Some label # _) \<Rightarrow> (if label = [] then ''Right'' else label))"

text \<open>
  What one call of \<^verbatim>\<open>processResults\<close> does towards its caller: it returns at once
  for want of a callback, it throws, it returns without calling the callback, it calls
  the callback with \<^verbatim>\<open>null\<close>, or it calls it with a result (a gesture event).
\<close>

datatype outcome =
  NoCallback
| Thrown error
| Silent
| CalledWithNull
| CalledWith GestureResult

text \<open>
  \<^verbatim>\<open>processResults\<close>. The two reads of \<^verbatim>\<open>Date.now()\<close> are two arguments:
  \<open>nowCheck\<close> is the one compared with the last emission, \<open>nowStamp\<close> the one stored.
  An exception leaves the state as it was, since nothing has been written before the
  classifier runs.
\<close>

definition processResults :: "RecognizerState \<Rightarrow> int \<Rightarrow> int \<Rightarrow> Results \<Rightarrow> RecognizerState \<times> outcome" where
  "processResults st nowCheck nowStamp results =
     (if \<not> onResultsCallback st then (st, NoCallback)
      else case multiHandLandmarks results of
        None \<Rightarrow> (st\<lparr>gestureBuffer := []\<rparr>, CalledWithNull)
      | Some [] \<Rightarrow> (st\<lparr>gestureBuffer := []\<rparr>, CalledWithNull)
      | Some (landmarks # _) \<Rightarrow>
          (let handedness = handednessOf results;
               handLandmarks = map (\<lambda>landmark. \<lparr>lm_x = lm_x landmark, lm_y = lm_y landmark, lm_z = lm_z landmark\<rparr>) landmarks
           in case classifyGesture handLandmarks handedness of
                Inl e \<Rightarrow> (st, Thrown e)
              | Inr gestureType \<Rightarrow>
                  if gestureType \<noteq> Unknown then
                    (let buffer = pushGesture (gestureBuffer st) gestureType
                     in case getMostFrequentGesture buffer of
                          None \<Rightarrow> (st\<lparr>gestureBuffer := buffer\<rparr>, Silent)
                        | Some consistentGesture \<Rightarrow>
                            if nowCheck - lastGestureTime st > 800 then
                              (st\<lparr>gestureBuffer := buffer, lastGestureTime := nowStamp\<rparr>,
                               CalledWith \<lparr>gr_type = consistentGesture,
                                           gr_confidence = calculateConfidence handLandmarks,
                                           gr_landmarks = handLandmarks\<rparr>)
                            else (st\<lparr>gestureBuffer := buffer\<rparr>, Silent))
                  else (st, Silent)))"

text \<open>
  \<^verbatim>\<open>detectGesture\<close> registers the callback before it sends the frame to the tracker;
  \<^verbatim>\<open>destroy\<close> empties the buffer and drops the callback.
\<close>

definition detectGesture :: "RecognizerState \<Rightarrow> RecognizerState" where
  "detectGesture st = st\<lparr>onResultsCallback := True\<rparr>"

definition destroy :: "RecognizerState \<Rightarrow> RecognizerState" where
  "destroy st = st\<lparr>gestureBuffer := [], onResultsCallback := False\<rparr>"

text \<open>The states the recognizer can be in: from the initial one, by its three operations.\<close>

inductive reachable :: "RecognizerState \<Rightarrow> bool" where
  reachable_initial: "reachable initialState"
| reachable_detect: "reachable st \<Longrightarrow> reachable (detectGesture st)"
| reachable_destroy: "reachable st \<Longrightarrow> reachable (destroy st)"
| reachable_process: "reachable st \<Longrightarrow> reachable (fst (processResults st nowCheck nowStamp results))"

text \<open>
  A run of the engine is a list of calls, each with its two clock reads and the
  tracker's result. \<open>emissionTimes\<close> lists the times stored by the emissions of a run
  (the value \<open>lastGestureTime\<close> takes at each call of the callback with a result), in
  order.
\<close>

fun emissionTimes :: "RecognizerState \<Rightarrow> (int \<times> int \<times> Results) list \<Rightarrow> int list" where
  "emissionTimes st [] = []"
| "emissionTimes st ((nowCheck, nowStamp, results) # calls) =
     (case processResults st nowCheck nowStamp results of
        (st', CalledWith ev) \<Rightarrow> lastGestureTime st' # emissionTimes st' calls
      | (st', _) \<Rightarrow> emissionTimes st' calls)"

section \<open>The simplified revision\<close>

text \<open>
  \<^verbatim>\<open>getFingersUpSimplified\<close>, first the loop over the four fingers with its own index
  arrays: a finger is up when its tip is above both its PIP and its MCP joint.
\<close>

definition fingerUpSimplified :: "HandLandmark list \<Rightarrow> nat list \<Rightarrow> nat list \<Rightarrow> nat list \<Rightarrow> nat \<Rightarrow> error + nat" where
  "fingerUpSimplified landmarks tips pips mcps i =
     bindE (readY (getLandmark landmarks (tips ! i))) (\<lambda>tipY.
     bindE (readY (getLandmark landmarks (pips ! i))) (\<lambda>pipY.
     bindE (readY (getLandmark landmarks (mcps ! i))) (\<lambda>mcpY.
       Inr (if tipY < pipY \<and> tipY < mcpY then 1 else 0))))"

fun otherFingersSimplified :: "HandLandmark list \<Rightarrow> nat list \<Rightarrow> nat list \<Rightarrow> nat list \<Rightarrow> nat list \<Rightarrow> error + nat list" where
  "otherFingersSimplified landmarks tips pips mcps [] = Inr []"
| "otherFingersSimplified landmarks tips pips mcps (i # rest) =
     bindE (fingerUpSimplified landmarks tips pips mcps i) (\<lambda>f.
     bindE (otherFingersSimplified landmarks tips pips mcps rest) (\<lambda>fs. Inr (f # fs)))"

text \<open>
  The thumb is up when its tip is more than 0.05 away from the index MCP horizontally
  and not lower than 0.02 below the thumb MCP; \<^verbatim>\<open>&&\<close> reads the two heights only
  when the distance test has passed. The handedness is not used.
\<close>

definition getFingersUpSimplified :: "HandLandmark list \<Rightarrow> string \<Rightarrow> error + nat list" where
  "getFingersUpSimplified landmarks handedness =
     (let thumbTip = getLandmark landmarks 4;
          thumbMcp = getLandmark landmarks 2;
          indexMcp = getLandmark landmarks 5
      in bindE (readX thumbTip) (\<lambda>tipX.
         bindE (readX indexMcp) (\<lambda>indexX.
         bindE (let thumbDistance = \<bar>tipX - indexX\<bar>
                in if thumbDistance > 0.05
                   then bindE (readY thumbTip) (\<lambda>tipY.
                        bindE (readY thumbMcp) (\<lambda>mcpY. Inr (tipY < mcpY + 0.02)))
                   else Inr False) (\<lambda>isThumbUp.
         bindE (otherFingersSimplified landmarks [8, 12, 16, 20] [6, 10, 14, 18] [5, 9, 13, 17]
                  [0, 1, 2, 3]) (\<lambda>fs.
           Inr ((if isThumbUp then 1 else 0) # fs))))))"

text \<open>
  \<^verbatim>\<open>isOkGestureSimplified\<close>: thumb tip and index tip closer than 0.08, and two of the
  middle, ring and pinky tips above their PIP joints.
\<close>

definition isOkGestureSimplified :: "HandLandmark list \<Rightarrow> error + bool" where
  "isOkGestureSimplified landmarks =
     (let thumbTip = getLandmark landmarks 4;
          indexTip = getLandmark landmarks 8;
          middleTip = getLandmark landmarks 12;
          ringTip = getLandmark landmarks 16;
          pinkyTip = getLandmark landmarks 20
      in bindE (readX thumbTip) (\<lambda>tx.
         bindE (readX indexTip) (\<lambda>ix.
         bindE (readY thumbTip) (\<lambda>ty.
         bindE (readY indexTip) (\<lambda>iy.
         bindE (readY middleTip) (\<lambda>y12.
         bindE (readY (getLandmark landmarks 10)) (\<lambda>y10.
         bindE (readY ringTip) (\<lambda>y16.
         bindE (readY (getLandmark landmarks 14)) (\<lambda>y14.
         bindE (readY pinkyTip) (\<lambda>y20.
         bindE (readY (getLandmark landmarks 18)) (\<lambda>y18.
           (let thumbIndexDistance = sqrt ((tx - ix) ^ 2 + (ty - iy) ^ 2);
                middleUp = (y12 < y10);
                ringUp = (y16 < y14);
                pinkyUp = (y20 < y18);
                otherFingersUp = (length (filter (\<lambda>b. b) [middleUp, ringUp, pinkyUp]) \<ge> 2)
            in Inr (thumbIndexDistance < 0.08 \<and> otherFingersUp)))))))))))))"

text \<open>
  \<^verbatim>\<open>classifyGesture\<close> of the simplified revision; the OK test is the last of the
  chain and runs only when no earlier rule applies.
\<close>

definition classifyGesture_simplified :: "HandLandmark list \<Rightarrow> string \<Rightarrow> error + gesture" where
  "classifyGesture_simplified landmarks handedness =
     bindE (getFingersUpSimplified landmarks handedness) (\<lambda>fingersUp.
       (let fingerCount = foldl (\<lambda>sum finger. sum + finger) 0 fingersUp
        in if fingerCount = 0 then Inr Fist
           else if fingerCount = 5 then Inr OpenPalm
           else if fingersUp ! 0 = 1 \<and> fingerCount = 1 then Inr ThumbsUp
           else if fingersUp ! 1 = 1 \<and> fingerCount = 1 then Inr Pointing
           else if fingersUp ! 1 = 1 \<and> fingersUp ! 2 = 1 \<and> fingerCount = 2 then Inr Peace
           else if fingersUp ! 1 = 1 \<and> fingersUp ! 4 = 1 \<and> fingerCount = 2 then Inr RockOn
           else bindE (isOkGestureSimplified landmarks) (\<lambda>ok.
                  if ok then Inr OkSign else Inr Unknown)))"

text \<open>
  \<^verbatim>\<open>calculateConfidence\<close> of the simplified revision: depth bound 0.2, a base of 0.7
  and a clamp to 0.6 and 0.95.
\<close>

fun confidenceLoop_simplified :: "HandLandmark list \<Rightarrow> nat \<times> nat \<Rightarrow> nat \<times> nat" where
  "confidenceLoop_simplified [] scores = scores"
| "confidenceLoop_simplified (landmark # rest) (visibilityScore, stabilityScore) =
     (let visibilityScore' =
            (if lm_x landmark > 0.1 \<and> lm_x landmark < 0.9 \<and> lm_y landmark > 0.1 \<and> lm_y landmark < 0.9
             then visibilityScore + 1 else visibilityScore);
          z = (case lm_z landmark of None \<Rightarrow> 0 | Some v \<Rightarrow> v)
      in confidenceLoop_simplified rest
           (visibilityScore', if \<bar>z\<bar> < 0.2 then stabilityScore + 1 else stabilityScore))"

definition calculateConfidence_simplified :: "HandLandmark list \<Rightarrow> jsnumber" where
  "calculateConfidence_simplified landmarks =
     (case confidenceLoop_simplified landmarks (0, 0) of (visibilityScore, stabilityScore) \<Rightarrow>
        if length landmarks = 0 then None
        else (let visibilityRatio = real visibilityScore / real (length landmarks);
                  stabilityRatio = real stabilityScore / real (length landmarks);
                  baseConfidence = 0.7;
                  confidence = baseConfidence + (visibilityRatio * 0.2) + (stabilityRatio * 0.1)
              in Some (max 0.6 (min 0.95 confidence))))"

text \<open>The majority vote and the buffer of the simplified revision: two of three.\<close>

definition getMostFrequentGesture_simplified :: "gesture list \<Rightarrow> gesture option" where
  "getMostFrequentGesture_simplified buffer =
     (if length buffer = 0 then None
      else (let frequency = countFrequency buffer
            in case mostFrequentKey frequency of
                 None \<Rightarrow> None
               | Some mostFrequent \<Rightarrow>
                   if frequencyOf frequency mostFrequent \<ge> 2 then Some mostFrequent else None))"

definition pushGesture_simplified :: "gesture list \<Rightarrow> gesture \<Rightarrow> gesture list" where
  "pushGesture_simplified buffer gestureType =
     (let pushed = buffer @ [gestureType]
      in if length pushed > 3 then tl pushed else pushed)"

section \<open>Vocabulary of the properties\<close>

text \<open>
  The geometric tests the properties speak of, on the landmarks of a frame of at least
  21 points: the thumb test for a handedness, the tip, PIP, MCP ordering of a finger,
  the secondary check of the thumbs-up rule, the distance of thumb tip and index tip,
  and the tip-above-PIP test.
\<close>

definition thumbExtended :: "HandLandmark list \<Rightarrow> string \<Rightarrow> bool" where
  "thumbExtended lms h =
     (if h = ''Right'' then lm_x (lms ! 4) > lm_x (lms ! 3) else lm_x (lms ! 4) < lm_x (lms ! 3))"

definition fingerExtended :: "HandLandmark list \<Rightarrow> nat \<Rightarrow> nat \<Rightarrow> nat \<Rightarrow> bool" where
  "fingerExtended lms tip pip mcp =
     (lm_y (lms ! tip) < lm_y (lms ! pip) \<and> lm_y (lms ! pip) < lm_y (lms ! mcp))"

definition thumbVertical :: "HandLandmark list \<Rightarrow> bool" where
  "thumbVertical lms =
     (lm_y (lms ! 4) < lm_y (lms ! 2) \<and> lm_y (lms ! 4) < lm_y (lms ! 5) \<and>
      \<bar>lm_x (lms ! 4) - lm_x (lms ! 5)\<bar> > 0.05)"

definition tipsWithin :: "HandLandmark list \<Rightarrow> real \<Rightarrow> bool" where
  "tipsWithin lms d =
     (sqrt ((lm_x (lms ! 4) - lm_x (lms ! 8)) ^ 2 + (lm_y (lms ! 4) - lm_y (lms ! 8)) ^ 2) < d)"

definition tipAbovePip :: "HandLandmark list \<Rightarrow> nat \<Rightarrow> nat \<Rightarrow> bool" where
  "tipAbovePip lms tip pip = (lm_y (lms ! tip) < lm_y (lms ! pip))"

definition fingerBit :: "bool \<Rightarrow> nat" where
  "fingerBit b = (if b then 1 else 0)"

text \<open>
  The tests of the simplified revision: its thumb test and its finger test (tip above
  both PIP and MCP); and the two readings of "the other fingers are up" of the OK rule,
  one of three and two of three tips above their PIP joints.
\<close>

definition thumbOut :: "HandLandmark list \<Rightarrow> bool" where
  "thumbOut lms =
     (\<bar>lm_x (lms ! 4) - lm_x (lms ! 5)\<bar> > 0.05 \<and> lm_y (lms ! 4) < lm_y (lms ! 2) + 0.02)"

definition fingerAbove :: "HandLandmark list \<Rightarrow> nat \<Rightarrow> nat \<Rightarrow> nat \<Rightarrow> bool" where
  "fingerAbove lms tip pip mcp =
     (lm_y (lms ! tip) < lm_y (lms ! pip) \<and> lm_y (lms ! tip) < lm_y (lms ! mcp))"

definition someAbovePip :: "HandLandmark list \<Rightarrow> bool" where
  "someAbovePip lms = (tipAbovePip lms 12 10 \<or> tipAbovePip lms 16 14 \<or> tipAbovePip lms 20 18)"

definition twoAbovePip :: "HandLandmark list \<Rightarrow> bool" where
  "twoAbovePip lms =
     (length (filter (\<lambda>b. b) [tipAbovePip lms 12 10, tipAbovePip lms 16 14, tipAbovePip lms 20 18]) \<ge> 2)"

text \<open>
  The mirror image of a landmark is a landmark the program can be handed, so its
  \<open>x\<close> is a double: \<open>1 - x\<close> rounded to the nearest double, ties to the even
  significand. \<open>binadeOf\<close> finds the binary exponent of a magnitude by doubling or
  halving it into the interval from 1 to 2 (the fuel of 1100 steps covers the exponents
  of all doubles), \<open>doubleExponent\<close> stops at the exponent of the subnormal numbers,
  and \<open>roundDouble\<close> rounds to a multiple of the spacing of the doubles of that
  exponent. Results beyond the largest double do not arise from \<open>1 - x\<close> for a
  double \<open>x\<close>.
\<close>

fun binadeOf :: "nat \<Rightarrow> real \<Rightarrow> int" where
  "binadeOf 0 y = 0"
| "binadeOf (Suc n) y =
     (if y < 1 then binadeOf n (2 * y) - 1
      else if 2 \<le> y then binadeOf n (y / 2) + 1
      else 0)"

definition doubleExponent :: "real \<Rightarrow> int" where
  "doubleExponent v = max (- 1022) (binadeOf 1100 \<bar>v\<bar>)"

definition roundHalfEven :: "real \<Rightarrow> int" where
  "roundHalfEven r =
     (let f = \<lfloor>r\<rfloor>
      in if r - of_int f < 1 / 2 then f
         else if r - of_int f > 1 / 2 then f + 1
         else if even f then f else f + 1)"

definition roundDouble :: "real \<Rightarrow> real" where
  "roundDouble v =
     (let q = 2 powi (doubleExponent v - 52)
      in of_int (roundHalfEven (v / q)) * q)"


subsection \<open>Concrete frames\<close>

definition pt :: "real \<Rightarrow> real \<Rightarrow> HandLandmark" where
  "pt a b = \<lparr>lm_x = a, lm_y = b, lm_z = Some 0\<rparr>"

text \<open>
  A right hand with only the thumb out, its tip above the knuckles; and the same hand
  with the thumb tip below the thumb's MCP joint.
\<close>

definition thumbsUpFrame :: "HandLandmark list" where
  "thumbsUpFrame = (replicate 21 (pt 0.5 0.5))[3 := pt 0.6 0.4, 4 := pt 0.7 0.3]"

definition thumbFlatFrame :: "HandLandmark list" where
  "thumbFlatFrame = (replicate 21 (pt 0.5 0.5))[3 := pt 0.6 0.4, 4 := pt 0.7 0.6]"



text \<open>
  Thumb and index up with their tips 0.02 apart, and of the other three fingers only
  the middle tip above its PIP joint; a hand with no finger up by either revision whose
  thumb and index tips coincide and whose middle and ring tips are above their PIP
  joints; and a hand with middle, ring and pinky up by the simplified tests.
\<close>

definition okOneFrame :: "HandLandmark list" where
  "okOneFrame = (replicate 21 (pt 0.5 0.5))[4 := pt 0.52 0.3, 6 := pt 0.5 0.4, 8 := pt 0.5 0.3,
     12 := pt 0.5 0.45]"

definition fistCloseFrame :: "HandLandmark list" where
  "fistCloseFrame = (replicate 21 (pt 0.5 0.5))[9 := pt 0.5 0.4, 12 := pt 0.5 0.45,
     13 := pt 0.5 0.4, 16 := pt 0.5 0.45]"

definition okThreeFrame :: "HandLandmark list" where
  "okThreeFrame = (replicate 21 (pt 0.5 0.5))[12 := pt 0.5 0.45, 16 := pt 0.5 0.45, 20 := pt 0.5 0.45]"

text \<open>All landmarks in a corner of the frame, and all in its centre.\<close>

definition edgeFrame :: "HandLandmark list" where
  "edgeFrame = replicate 21 (pt 0 1)"

definition centredFrame :: "HandLandmark list" where
  "centredFrame = replicate 21 (pt 0.5 0.5)"

text \<open>A frame of 20 landmarks, one short of a hand.\<close>

definition shortFrame :: "HandLandmark list" where
  "shortFrame = replicate 20 (pt 0.5 0.5)"

text \<open>The tracker's result for one right hand with the given landmarks.\<close>

definition handResult :: "HandLandmark list \<Rightarrow> Results" where
  "handResult lms = \<lparr>multiHandLandmarks = Some [lms], multiHandedness = Some [Some ''Right'']\<rparr>"

text \<open>
  The recognizer after two thumbs-up frames, before any emission; and a run of six
  thumbs-up frames with their clock reads.
\<close>

definition trackingState :: RecognizerState where
  "trackingState = \<lparr>lastGestureTime = 0, gestureBuffer = [ThumbsUp, ThumbsUp], onResultsCallback = True\<rparr>"

definition sustainedCalls :: "(int \<times> int \<times> Results) list" where
  "sustainedCalls = [(1000, 1000, handResult thumbsUpFrame), (1100, 1101, handResult thumbsUpFrame),
     (1200, 1202, handResult thumbsUpFrame), (1300, 1300, handResult thumbsUpFrame),
     (2002, 2003, handResult thumbsUpFrame), (2003, 2004, handResult thumbsUpFrame)]"

section \<open>Properties of the classifier\<close>

lemma getFingersUp_long:
  assumes "21 \<le> length lms"
  shows "getFingersUp lms fingerTips fingerPips fingerMcps h =
     Inr [fingerBit (thumbExtended lms h), fingerBit (fingerExtended lms 8 6 5),
          fingerBit (fingerExtended lms 12 10 9), fingerBit (fingerExtended lms 16 14 13),
          fingerBit (fingerExtended lms 20 18 17)]"
  using assms
  by (simp add: getFingersUp_def fingerUp_def fingerTips_def fingerPips_def fingerMcps_def
      getLandmark_def bindE_def thumbExtended_def fingerExtended_def fingerBit_def)

lemma getFingersUp_short:
  assumes "length lms < 21"
  shows "getFingersUp lms fingerTips fingerPips fingerMcps h = Inl TypeError"
  using assms
  by (auto simp add: getFingersUp_def fingerUp_def fingerTips_def fingerPips_def fingerMcps_def
      getLandmark_def bindE_def split: sum.splits)

lemma classifyGesture_short: "length lms < 21 \<Longrightarrow> classifyGesture lms h = Inl TypeError"
  by (simp add: classifyGesture_def getFingersUp_short bindE_def)


lemma isThumbsUp_long: "21 \<le> length lms \<Longrightarrow> isThumbsUp lms h = Inr (thumbVertical lms)"
  by (simp add: isThumbsUp_def getLandmark_def bindE_def thumbVertical_def)

lemma isOkGesture_long:
  "21 \<le> length lms \<Longrightarrow> isOkGesture lms =
     Inr (tipsWithin lms 0.05 \<and>
          (tipAbovePip lms 12 10 \<or> tipAbovePip lms 16 14 \<or> tipAbovePip lms 20 18))"
  by (simp add: isOkGesture_def getLandmark_def bindE_def tipsWithin_def tipAbovePip_def)

lemma classifyGesture_ThumbsUp_iff:
  assumes "21 \<le> length lms"
  shows "classifyGesture lms h = Inr ThumbsUp \<longleftrightarrow>
     thumbExtended lms h \<and> \<not> fingerExtended lms 8 6 5 \<and> \<not> fingerExtended lms 12 10 9 \<and>
     \<not> fingerExtended lms 16 14 13 \<and> \<not> fingerExtended lms 20 18 17 \<and> thumbVertical lms"
  unfolding classifyGesture_def getFingersUp_long [OF assms] isThumbsUp_long [OF assms]
    isOkGesture_long [OF assms]
  by (cases "thumbExtended lms h"; cases "fingerExtended lms 8 6 5";
      cases "fingerExtended lms 12 10 9"; cases "fingerExtended lms 16 14 13";
      cases "fingerExtended lms 20 18 17")
     (simp_all add: bindE_def fingerBit_def)






lemma roundHalfEven_of_int: "roundHalfEven (of_int m) = m"
  by (simp add: roundHalfEven_def)



text \<open>
  Rounding commutes with negation. So the rounded difference of two exact mirror images
  has the magnitude of the rounded difference of the originals, and the distance test
  of \<^verbatim>\<open>isThumbsUp\<close> gives the same answer on both whether its subtraction is
  taken exactly, as here, or rounded, as on the machine.
\<close>

lemma roundHalfEven_minus: "roundHalfEven (- r) = - roundHalfEven r"
proof (cases "r = of_int \<lfloor>r\<rfloor>")
  case True
  then obtain m where "r = of_int m" ..
  then have "- r = of_int (- m)" by simp
  then show ?thesis using \<open>r = of_int m\<close> by (simp only: roundHalfEven_of_int)
next
  case False
  have fl: "\<lfloor>- r\<rfloor> = - \<lfloor>r\<rfloor> - 1"
  proof (rule floor_unique)
    have lt: "of_int \<lfloor>r\<rfloor> < r" using False of_int_floor_le [of r] by (metis less_le)
    have up: "r < of_int \<lfloor>r\<rfloor> + 1" by linarith
    have cast: "(of_int (- \<lfloor>r\<rfloor> - 1) :: real) = - of_int \<lfloor>r\<rfloor> - 1" by simp
    show "of_int (- \<lfloor>r\<rfloor> - 1) \<le> - r" unfolding cast using up by linarith
    show "- r < of_int (- \<lfloor>r\<rfloor> - 1) + 1" unfolding cast using lt by linarith
  qed
  show ?thesis
    unfolding roundHalfEven_def Let_def fl
    by (auto simp add: algebra_simps)
qed

lemma roundDouble_minus: "roundDouble (- v) = - roundDouble v"
  by (simp add: roundDouble_def doubleExponent_def Let_def roundHalfEven_minus)

lemma mirror_distance_rounded:
  "\<bar>roundDouble ((1 - a) - (1 - b))\<bar> = \<bar>roundDouble (a - b)\<bar>"
proof -
  have "(1 - a) - (1 - b) = - (a - b)" by simp
  then show ?thesis by (simp only: roundDouble_minus abs_minus_cancel)
qed








lemma thumbsUpFrame_facts:
  "length thumbsUpFrame = 21" "thumbExtended thumbsUpFrame ''Right''"
  "\<not> fingerExtended thumbsUpFrame 8 6 5" "\<not> fingerExtended thumbsUpFrame 12 10 9"
  "\<not> fingerExtended thumbsUpFrame 16 14 13" "\<not> fingerExtended thumbsUpFrame 20 18 17"
  "thumbVertical thumbsUpFrame"
  by (simp_all add: thumbsUpFrame_def pt_def thumbExtended_def fingerExtended_def thumbVertical_def)

lemma thumbFlatFrame_facts:
  "length thumbFlatFrame = 21" "thumbExtended thumbFlatFrame ''Right''"
  "\<not> fingerExtended thumbFlatFrame 8 6 5" "\<not> fingerExtended thumbFlatFrame 12 10 9"
  "\<not> fingerExtended thumbFlatFrame 16 14 13" "\<not> fingerExtended thumbFlatFrame 20 18 17"
  "\<not> thumbVertical thumbFlatFrame"
  by (simp_all add: thumbFlatFrame_def pt_def thumbExtended_def fingerExtended_def thumbVertical_def)

text \<open>
  C7: in a frame of 21 landmarks in which \<^verbatim>\<open>getFingersUp\<close> finds only the thumb up
  (\<^verbatim>\<open>fingersUp[0] === 1\<close> and a finger count of 1), the classifier answers thumbs-up
  when the secondary check passes (thumb tip above the thumb MCP and above the index
  MCP, and more than 0.05 away from the index MCP horizontally) and unknown when it
  fails; no later rule of the chain is tried.
\<close>

theorem thumb_only_classification:
  assumes "length lms = 21"
    and "getFingersUp lms fingerTips fingerPips fingerMcps h = Inr fingersUp"
    and "fingersUp ! 0 = 1"
    and "foldl (\<lambda>sum finger. sum + finger) 0 fingersUp = 1"
  shows "classifyGesture lms h = Inr (if thumbVertical lms then ThumbsUp else Unknown)"
proof -
  from assms(1) have len: "21 \<le> length lms" by simp
  from assms(2) have fs: "getFingersUp lms fingerTips fingerPips fingerMcps h = Inr fingersUp" .
  have "length fingersUp = 5" using fs unfolding getFingersUp_long [OF len] by auto
  then obtain a b c d e where l: "fingersUp = [a, b, c, d, e]"
    by (auto simp: length_Suc_conv eval_nat_numeral)
  with assms(3,4) have "b \<noteq> 1" by auto
  then show ?thesis
    using assms(3,4) l
    by (simp add: classifyGesture_def fs bindE_def isThumbsUp_long [OF len])
qed

theorem thumb_only_classification_witness:
  "length thumbsUpFrame = 21 \<and>
   getFingersUp thumbsUpFrame fingerTips fingerPips fingerMcps ''Right'' = Inr [1, 0, 0, 0, 0] \<and>
   thumbVertical thumbsUpFrame \<and>
   classifyGesture thumbsUpFrame ''Right'' = Inr ThumbsUp \<and>
   length thumbFlatFrame = 21 \<and>
   getFingersUp thumbFlatFrame fingerTips fingerPips fingerMcps ''Right'' = Inr [1, 0, 0, 0, 0] \<and>
   \<not> thumbVertical thumbFlatFrame \<and>
   classifyGesture thumbFlatFrame ''Right'' = Inr Unknown"
proof -
  have up: "getFingersUp thumbsUpFrame fingerTips fingerPips fingerMcps ''Right'' = Inr [1, 0, 0, 0, 0]"
    by (simp add: getFingersUp_long thumbsUpFrame_facts fingerBit_def)
  have flat: "getFingersUp thumbFlatFrame fingerTips fingerPips fingerMcps ''Right'' = Inr [1, 0, 0, 0, 0]"
    by (simp add: getFingersUp_long thumbFlatFrame_facts fingerBit_def)
  from thumb_only_classification [OF thumbsUpFrame_facts(1) up]
       thumb_only_classification [OF thumbFlatFrame_facts(1) flat]
  show ?thesis
    by (simp add: up flat thumbsUpFrame_facts thumbFlatFrame_facts)
qed




lemma classifyGesture_take:
  assumes "21 < length lms"
  shows "classifyGesture lms h = classifyGesture (take 21 lms) h"
proof -
  from assms have len: "21 \<le> length lms" and len': "21 \<le> length (take 21 lms)" by simp_all
  have eqs: "thumbExtended (take 21 lms) h = thumbExtended lms h"
    "\<And>t p m. t < 21 \<Longrightarrow> p < 21 \<Longrightarrow> m < 21 \<Longrightarrow>
       fingerExtended (take 21 lms) t p m = fingerExtended lms t p m"
    "thumbVertical (take 21 lms) = thumbVertical lms"
    "\<And>d. tipsWithin (take 21 lms) d = tipsWithin lms d"
    "\<And>t p. t < 21 \<Longrightarrow> p < 21 \<Longrightarrow> tipAbovePip (take 21 lms) t p = tipAbovePip lms t p"
    by (simp_all add: thumbExtended_def fingerExtended_def thumbVertical_def tipsWithin_def
        tipAbovePip_def)
  show ?thesis
    unfolding classifyGesture_def getFingersUp_long [OF len] getFingersUp_long [OF len']
      isThumbsUp_long [OF len] isThumbsUp_long [OF len'] isOkGesture_long [OF len]
      isOkGesture_long [OF len']
    by (simp only: eqs)
qed

lemma classifyGesture_returns:
  assumes "21 \<le> length lms"
  shows "\<exists>g. classifyGesture lms h = Inr g"
  unfolding classifyGesture_def getFingersUp_long [OF assms] isThumbsUp_long [OF assms]
    isOkGesture_long [OF assms]
  by (simp add: bindE_def Let_def)

lemma classify_thumbsUpFrame: "classifyGesture thumbsUpFrame ''Right'' = Inr ThumbsUp"
  by (simp add: classifyGesture_ThumbsUp_iff thumbsUpFrame_facts)

lemma classify_thumbFlatFrame: "classifyGesture thumbFlatFrame ''Right'' = Inr Unknown"
  using thumbFlatFrame_facts
  by (simp add: classifyGesture_def getFingersUp_long isThumbsUp_long bindE_def fingerBit_def)

section \<open>Properties of the majority vote\<close>

lemma frequencyOf_Nil: "frequencyOf [] k = 0"
  by (simp add: frequencyOf_def)

lemma frequencyOf_increment:
  "frequencyOf (increment fr g) k = (if k = g then frequencyOf fr g + 1 else frequencyOf fr k)"
  by (induction fr g rule: increment.induct) (auto simp: frequencyOf_def)

lemma keys_increment: "fst ` set (increment fr g) = insert g (fst ` set fr)"
  by (induction fr g rule: increment.induct) auto

lemma frequencyOf_foldl:
  "frequencyOf (foldl increment fr buf) k = frequencyOf fr k + count_list buf k"
  by (induction buf arbitrary: fr) (auto simp: frequencyOf_increment)

lemma keys_foldl: "fst ` set (foldl increment fr buf) = fst ` set fr \<union> set buf"
  by (induction buf arbitrary: fr) (auto simp: keys_increment)

lemma frequencyOf_countFrequency: "frequencyOf (countFrequency buf) k = count_list buf k"
  by (simp add: countFrequency_def frequencyOf_foldl frequencyOf_Nil)

lemma keys_countFrequency: "fst ` set (countFrequency buf) = set buf"
  by (simp add: countFrequency_def keys_foldl)

lemma reduce_pick:
  "foldl (\<lambda>a b. if F a > F b then a else b) k ks \<in> set (k # ks) \<and>
   (\<forall>x \<in> set (k # ks). (F x :: nat) \<le> F (foldl (\<lambda>a b. if F a > F b then a else b) k ks))"
proof (induction ks arbitrary: k)
  case Nil
  show ?case by simp
next
  case (Cons b ks)
  let ?k' = "if F k > F b then k else b"
  from Cons.IH [of ?k'] show ?case
    by (auto split: if_splits intro: order_trans)
qed

lemma mostFrequentKey_max:
  assumes "mostFrequentKey fr = Some m"
  shows "m \<in> fst ` set fr \<and> (\<forall>k \<in> fst ` set fr. frequencyOf fr k \<le> frequencyOf fr m)"
proof (cases "map fst fr")
  case Nil
  with assms show ?thesis by (simp add: mostFrequentKey_def)
next
  case (Cons k ks)
  with assms have m: "m = foldl (\<lambda>a b. if frequencyOf fr a > frequencyOf fr b then a else b) k ks"
    by (simp add: mostFrequentKey_def)
  have s: "fst ` set fr = set (k # ks)"
    using Cons by (metis set_map)
  show ?thesis
    unfolding s m using reduce_pick [of "frequencyOf fr" k ks] by blast
qed

lemma mostFrequentKey_defined: "fr \<noteq> [] \<Longrightarrow> \<exists>m. mostFrequentKey fr = Some m"
  by (cases fr) (auto simp: mostFrequentKey_def)

lemma countFrequency_nonempty: "buf \<noteq> [] \<Longrightarrow> countFrequency buf \<noteq> []"
  using keys_countFrequency [of buf] by auto

lemma getMostFrequentGesture_Some:
  assumes "getMostFrequentGesture buf = Some c"
  shows "c \<in> set buf \<and> 3 \<le> count_list buf c"
proof -
  from assms obtain m where m: "mostFrequentKey (countFrequency buf) = Some m"
    and c: "c = m" and f: "3 \<le> frequencyOf (countFrequency buf) m"
    by (auto simp: getMostFrequentGesture_def Let_def split: if_splits option.splits)
  from mostFrequentKey_max [OF m] have "m \<in> set buf"
    by (simp add: keys_countFrequency)
  with c f show ?thesis by (simp add: frequencyOf_countFrequency)
qed

lemma count_list_two: "a \<noteq> b \<Longrightarrow> count_list xs a + count_list xs b \<le> length xs"
  by (induction xs) auto

lemma getMostFrequentGesture_majority:
  assumes "3 \<le> count_list buf c" and "length buf \<le> 5"
  shows "getMostFrequentGesture buf = Some c"
proof -
  from assms have ne: "buf \<noteq> []" by auto
  then obtain m where m: "mostFrequentKey (countFrequency buf) = Some m"
    using mostFrequentKey_defined countFrequency_nonempty by blast
  have cin: "c \<in> set buf" using assms(1) by (metis count_list_0_iff not_numeral_le_zero)
  from mostFrequentKey_max [OF m] cin have "count_list buf c \<le> count_list buf m"
    by (simp add: keys_countFrequency frequencyOf_countFrequency)
  with assms count_list_two [of m c buf] have "m = c" by (cases "m = c") auto
  with m assms ne show ?thesis
    by (simp add: getMostFrequentGesture_def frequencyOf_countFrequency)
qed

text \<open>
  C6: with the buffer of three and the two required detections of the simplified
  revision, the vote over \<open>[a, b, a]\<close> yields \<open>a\<close>, and over three labels that are
  pairwise different it yields no candidate. Both buffers are what three pushes into
  the empty buffer leave.
\<close>

theorem majority_two_of_three:
  "getMostFrequentGesture_simplified [a, b, a] = Some a \<and>
   (a \<noteq> b \<and> b \<noteq> c \<and> a \<noteq> c \<longrightarrow> getMostFrequentGesture_simplified [a, b, c] = None) \<and>
   foldl pushGesture_simplified [] [a, b, a] = [a, b, a] \<and>
   foldl pushGesture_simplified [] [a, b, c] = [a, b, c]"
  by (simp add: getMostFrequentGesture_simplified_def countFrequency_def mostFrequentKey_def
      frequencyOf_def pushGesture_simplified_def)

theorem majority_two_of_three_witness:
  "getMostFrequentGesture_simplified [Fist, Peace, Fist] = Some Fist \<and>
   getMostFrequentGesture_simplified [Fist, Peace, Pointing] = None \<and>
   foldl pushGesture_simplified [] [Fist, Peace, Pointing] = [Fist, Peace, Pointing]"
  using majority_two_of_three [of Fist Peace Pointing] by simp

section \<open>Properties of the stabilizer\<close>

lemma copy_landmarks:
  "map (\<lambda>landmark. \<lparr>lm_x = lm_x landmark, lm_y = lm_y landmark, lm_z = lm_z landmark\<rparr>) lms = lms"
  by (induction lms) auto

lemma processResults_hand:
  assumes "onResultsCallback st" and "multiHandLandmarks r = Some (lms # others)"
  shows "processResults st nc ns r =
     (case classifyGesture lms (handednessOf r) of
        Inl e \<Rightarrow> (st, Thrown e)
      | Inr g \<Rightarrow>
          if g = Unknown then (st, Silent)
          else (case getMostFrequentGesture (pushGesture (gestureBuffer st) g) of
                  None \<Rightarrow> (st\<lparr>gestureBuffer := pushGesture (gestureBuffer st) g\<rparr>, Silent)
                | Some c \<Rightarrow>
                    if nc - lastGestureTime st > 800
                    then (st\<lparr>gestureBuffer := pushGesture (gestureBuffer st) g, lastGestureTime := ns\<rparr>,
                          CalledWith \<lparr>gr_type = c, gr_confidence = calculateConfidence lms, gr_landmarks = lms\<rparr>)
                    else (st\<lparr>gestureBuffer := pushGesture (gestureBuffer st) g\<rparr>, Silent)))"
  using assms
  by (simp add: processResults_def copy_landmarks Let_def split: sum.splits option.splits)

lemma processResults_CalledWith:
  assumes "processResults st nc ns r = (st', CalledWith ev)"
  shows "\<exists>lms others g. onResultsCallback st \<and> multiHandLandmarks r = Some (lms # others) \<and>
      classifyGesture lms (handednessOf r) = Inr g \<and> g \<noteq> Unknown \<and>
      getMostFrequentGesture (pushGesture (gestureBuffer st) g) = Some (gr_type ev) \<and>
      nc - lastGestureTime st > 800 \<and>
      st' = st\<lparr>gestureBuffer := pushGesture (gestureBuffer st) g, lastGestureTime := ns\<rparr>"
  using assms
  by (auto simp add: processResults_def copy_landmarks Let_def
      split: if_splits sum.splits option.splits list.splits)

lemma processResults_lastGestureTime:
  "(\<forall>ev. snd (processResults st nc ns r) \<noteq> CalledWith ev) \<Longrightarrow>
   lastGestureTime (fst (processResults st nc ns r)) = lastGestureTime st"
  by (auto simp add: processResults_def copy_landmarks Let_def
      split: if_splits sum.splits option.splits list.splits)

lemma set_pushGesture: "set (pushGesture buf g) \<subseteq> insert g (set buf)"
  by (cases buf) (auto simp add: pushGesture_def Let_def dest: list.set_sel(2))

lemma length_pushGesture: "length buf \<le> 5 \<Longrightarrow> length (pushGesture buf g) \<le> 5"
  by (simp add: pushGesture_def Let_def)

lemma count_pushGesture: "count_list buf c \<le> count_list (pushGesture buf c) c"
  by (cases buf) (auto simp add: pushGesture_def Let_def)

lemma processResults_buffer_set:
  "set (gestureBuffer (fst (processResults st nc ns r))) \<subseteq> set (gestureBuffer st) \<union> (- {Unknown})"
  using set_pushGesture
  by (auto simp add: processResults_def copy_landmarks Let_def
      split: if_splits sum.splits option.splits list.splits)

lemma processResults_buffer_length:
  "length (gestureBuffer st) \<le> 5 \<Longrightarrow> length (gestureBuffer (fst (processResults st nc ns r))) \<le> 5"
  using length_pushGesture
  by (auto simp add: processResults_def copy_landmarks Let_def
      split: if_splits sum.splits option.splits list.splits)

lemma reachable_buffer:
  "reachable st \<Longrightarrow> Unknown \<notin> set (gestureBuffer st) \<and> length (gestureBuffer st) \<le> 5"
proof (induction rule: reachable.induct)
  case reachable_initial
  show ?case by (simp add: initialState_def)
next
  case (reachable_detect st)
  then show ?case by (simp add: detectGesture_def)
next
  case (reachable_destroy st)
  then show ?case by (simp add: destroy_def)
next
  case (reachable_process st nowCheck nowStamp results)
  then show ?case
    using processResults_buffer_set [of st nowCheck nowStamp results]
      processResults_buffer_length [of st nowCheck nowStamp results]
    by auto
qed

lemma handResult_simps:
  "multiHandLandmarks (handResult lms) = Some [lms]" "handednessOf (handResult lms) = ''Right''"
  by (simp_all add: handResult_def handednessOf_def)

lemma majority_concrete:
  "getMostFrequentGesture [ThumbsUp] = None"
  "getMostFrequentGesture [ThumbsUp, ThumbsUp] = None"
  "getMostFrequentGesture [ThumbsUp, ThumbsUp, ThumbsUp] = Some ThumbsUp"
  "getMostFrequentGesture [ThumbsUp, ThumbsUp, ThumbsUp, ThumbsUp] = Some ThumbsUp"
  "getMostFrequentGesture [ThumbsUp, ThumbsUp, ThumbsUp, ThumbsUp, ThumbsUp] = Some ThumbsUp"
  by (simp_all add: getMostFrequentGesture_def countFrequency_def mostFrequentKey_def frequencyOf_def)

lemma process_thumbsUp:
  "onResultsCallback st \<Longrightarrow> processResults st nc ns (handResult thumbsUpFrame) =
     (case getMostFrequentGesture (pushGesture (gestureBuffer st) ThumbsUp) of
        None \<Rightarrow> (st\<lparr>gestureBuffer := pushGesture (gestureBuffer st) ThumbsUp\<rparr>, Silent)
      | Some c \<Rightarrow>
          if nc - lastGestureTime st > 800
          then (st\<lparr>gestureBuffer := pushGesture (gestureBuffer st) ThumbsUp, lastGestureTime := ns\<rparr>,
                CalledWith \<lparr>gr_type = c, gr_confidence = calculateConfidence thumbsUpFrame,
                  gr_landmarks = thumbsUpFrame\<rparr>)
          else (st\<lparr>gestureBuffer := pushGesture (gestureBuffer st) ThumbsUp\<rparr>, Silent))"
  by (simp add: processResults_hand [of st _ thumbsUpFrame "[]"] handResult_simps classify_thumbsUpFrame)

lemma reachable_trackingState: "reachable trackingState"
proof -
  have eq: "trackingState = fst (processResults (fst (processResults (detectGesture initialState) 1000 1000
      (handResult thumbsUpFrame))) 1100 1100 (handResult thumbsUpFrame))"
    by (simp add: process_thumbsUp detectGesture_def initialState_def pushGesture_def majority_concrete
        trackingState_def)
  show ?thesis
    by (subst eq) (intro reachable.intros)
qed

lemma process_flat:
  "processResults trackingState 1200 1200 (handResult thumbFlatFrame) = (trackingState, Silent)"
  by (simp add: handResult_simps classify_thumbFlatFrame
      processResults_hand [of _ _ thumbFlatFrame "[]"] trackingState_def)

lemma process_short:
  "processResults trackingState 1200 1200 (handResult shortFrame) = (trackingState, Thrown TypeError)"
  by (simp add: handResult_simps classifyGesture_short
      processResults_hand [of _ _ shortFrame "[]"] trackingState_def shortFrame_def)

text \<open>
  C9: in every reachable state of the recognizer no label of the buffer is
  \<^verbatim>\<open>'unknown'\<close>, and a result that a call of \<^verbatim>\<open>processResults\<close> hands to the
  callback from such a state never carries \<^verbatim>\<open>'unknown'\<close>.
\<close>

theorem unknown_never_buffered:
  assumes "reachable st"
  shows "Unknown \<notin> set (gestureBuffer st) \<and>
     (\<forall>nowCheck nowStamp results ev.
        snd (processResults st nowCheck nowStamp results) = CalledWith ev \<longrightarrow> gr_type ev \<noteq> Unknown)"
proof (intro conjI allI impI)
  show inv: "Unknown \<notin> set (gestureBuffer st)" using reachable_buffer [OF assms] by simp
  fix nowCheck nowStamp results ev
  assume "snd (processResults st nowCheck nowStamp results) = CalledWith ev"
  then have "processResults st nowCheck nowStamp results =
      (fst (processResults st nowCheck nowStamp results), CalledWith ev)"
    by (metis prod.collapse)
  from processResults_CalledWith [OF this] obtain g where g: "g \<noteq> Unknown"
    and c: "getMostFrequentGesture (pushGesture (gestureBuffer st) g) = Some (gr_type ev)"
    by blast
  from getMostFrequentGesture_Some [OF c] set_pushGesture [of "gestureBuffer st" g]
  have "gr_type ev \<in> insert g (set (gestureBuffer st))" by blast
  with g inv show "gr_type ev \<noteq> Unknown" by auto
qed

theorem unknown_never_buffered_witness:
  "reachable trackingState \<and> Unknown \<notin> set (gestureBuffer trackingState) \<and>
   snd (processResults trackingState 1200 1202 (handResult thumbsUpFrame)) =
     CalledWith \<lparr>gr_type = ThumbsUp, gr_confidence = calculateConfidence thumbsUpFrame,
        gr_landmarks = thumbsUpFrame\<rparr> \<and>
   gr_type \<lparr>gr_type = ThumbsUp, gr_confidence = calculateConfidence thumbsUpFrame,
        gr_landmarks = thumbsUpFrame\<rparr> \<noteq> Unknown"
proof -
  have ev: "snd (processResults trackingState 1200 1202 (handResult thumbsUpFrame)) =
     CalledWith \<lparr>gr_type = ThumbsUp, gr_confidence = calculateConfidence thumbsUpFrame,
        gr_landmarks = thumbsUpFrame\<rparr>"
    by (simp add: process_thumbsUp trackingState_def pushGesture_def majority_concrete)
  from unknown_never_buffered [OF reachable_trackingState] ev
  have "Unknown \<notin> set (gestureBuffer trackingState) \<and>
     gr_type \<lparr>gr_type = ThumbsUp, gr_confidence = calculateConfidence thumbsUpFrame,
        gr_landmarks = thumbsUpFrame\<rparr> \<noteq> Unknown"
    by blast
  with reachable_trackingState ev show ?thesis by (simp only: simp_thms)
qed

lemma emissionTimes_spaced:
  assumes "\<forall>c \<in> set calls. fst c \<le> fst (snd c)"
  shows "sorted_wrt (\<lambda>a b. b - a > 800) (emissionTimes st calls) \<and>
         (\<forall>t \<in> set (emissionTimes st calls). t - lastGestureTime st > 800)"
  using assms
proof (induction calls arbitrary: st)
  case Nil
  show ?case by simp
next
  case (Cons call calls)
  obtain nc ns r where call: "call = (nc, ns, r)" by (cases call) auto
  from Cons.prems have le: "nc \<le> ns" and rest: "\<forall>c \<in> set calls. fst c \<le> fst (snd c)"
    by (auto simp: call)
  obtain st' out where p: "processResults st nc ns r = (st', out)" by fastforce
  note IH = Cons.IH [OF rest, of st']
  show ?case
  proof (cases "\<exists>ev. out = CalledWith ev")
    case True
    then obtain ev where out: "out = CalledWith ev" by blast
    from processResults_CalledWith [OF p [unfolded out]]
    have gap: "nc - lastGestureTime st > 800" and last: "lastGestureTime st' = ns"
      by auto
    have et: "emissionTimes st (call # calls) = ns # emissionTimes st' calls"
      by (simp add: call p out last)
    from IH gap le last show ?thesis
      unfolding et by auto
  next
    case False
    then have "\<forall>ev. snd (processResults st nc ns r) \<noteq> CalledWith ev" by (simp add: p)
    from processResults_lastGestureTime [OF this] have last: "lastGestureTime st' = lastGestureTime st"
      by (simp add: p)
    from False have et: "emissionTimes st (call # calls) = emissionTimes st' calls"
      by (cases out) (simp_all add: call p)
    from IH last show ?thesis unfolding et by simp
  qed
qed

text \<open>
  C4: debounce. Provided the second clock read of a call is not before its first, any
  two emissions of a run, whatever its frames, store times more than 800 ms apart, so
  that no window of 800 ms holds two of them; a call made 800 ms or less after the last
  emission emits nothing; and a call that has a candidate more than 800 ms after the
  last emission does emit it.
\<close>

theorem cooldown_debounce:
  "((\<forall>c \<in> set calls. fst c \<le> fst (snd c)) \<longrightarrow>
      (\<forall>i j. i < j \<and> j < length (emissionTimes st calls) \<longrightarrow>
         emissionTimes st calls ! j - emissionTimes st calls ! i > 800)) \<and>
   (nowCheck - lastGestureTime st \<le> 800 \<longrightarrow>
      (\<forall>ev. snd (processResults st nowCheck nowStamp r) \<noteq> CalledWith ev)) \<and>
   (onResultsCallback st \<and> multiHandLandmarks r = Some (lms # others) \<and>
    classifyGesture lms (handednessOf r) = Inr g \<and> g \<noteq> Unknown \<and>
    getMostFrequentGesture (pushGesture (gestureBuffer st) g) = Some c \<and>
    nowCheck - lastGestureTime st > 800 \<longrightarrow>
      (\<exists>ev. snd (processResults st nowCheck nowStamp r) = CalledWith ev \<and> gr_type ev = c))"
proof (intro conjI impI allI)
  fix i j
  assume "\<forall>c \<in> set calls. fst c \<le> fst (snd c)" and "i < j \<and> j < length (emissionTimes st calls)"
  with emissionTimes_spaced [of calls st]
  show "emissionTimes st calls ! j - emissionTimes st calls ! i > 800"
    by (simp add: sorted_wrt_iff_nth_less)
next
  fix ev
  assume le: "nowCheck - lastGestureTime st \<le> 800"
  show "snd (processResults st nowCheck nowStamp r) \<noteq> CalledWith ev"
  proof
    assume "snd (processResults st nowCheck nowStamp r) = CalledWith ev"
    then have "processResults st nowCheck nowStamp r =
        (fst (processResults st nowCheck nowStamp r), CalledWith ev)"
      by (metis prod.collapse)
    from processResults_CalledWith [OF this] le show False by auto
  qed
next
  assume a: "onResultsCallback st \<and> multiHandLandmarks r = Some (lms # others) \<and>
    classifyGesture lms (handednessOf r) = Inr g \<and> g \<noteq> Unknown \<and>
    getMostFrequentGesture (pushGesture (gestureBuffer st) g) = Some c \<and>
    nowCheck - lastGestureTime st > 800"
  then show "\<exists>ev. snd (processResults st nowCheck nowStamp r) = CalledWith ev \<and> gr_type ev = c"
    by (simp add: processResults_hand [of st r lms others])
qed

lemma emissionTimes_emit:
  "processResults st nc ns r = (st', CalledWith ev) \<Longrightarrow>
   emissionTimes st ((nc, ns, r) # calls) = lastGestureTime st' # emissionTimes st' calls"
  by simp

lemma emissionTimes_silent:
  "processResults st nc ns r = (st', Silent) \<Longrightarrow>
   emissionTimes st ((nc, ns, r) # calls) = emissionTimes st' calls"
  by simp

lemma emissionTimes_sustained: "emissionTimes (detectGesture initialState) sustainedCalls = [1202, 2004]"
proof -
  let ?S = "\<lambda>t buf. \<lparr>lastGestureTime = t, gestureBuffer = buf, onResultsCallback = True\<rparr>"
  let ?tu = "handResult thumbsUpFrame"
  let ?ev = "\<lparr>gr_type = ThumbsUp, gr_confidence = calculateConfidence thumbsUpFrame,
      gr_landmarks = thumbsUpFrame\<rparr>"
  have s0: "detectGesture initialState = ?S 0 []"
    by (simp add: detectGesture_def initialState_def)
  have s1: "processResults (?S 0 []) 1000 1000 ?tu = (?S 0 [ThumbsUp], Silent)"
    by (simp add: process_thumbsUp pushGesture_def majority_concrete)
  have s2: "processResults (?S 0 [ThumbsUp]) 1100 1101 ?tu = (?S 0 [ThumbsUp, ThumbsUp], Silent)"
    by (simp add: process_thumbsUp pushGesture_def majority_concrete)
  have s3: "processResults (?S 0 [ThumbsUp, ThumbsUp]) 1200 1202 ?tu =
      (?S 1202 [ThumbsUp, ThumbsUp, ThumbsUp], CalledWith ?ev)"
    by (simp add: process_thumbsUp pushGesture_def majority_concrete)
  have s4: "processResults (?S 1202 [ThumbsUp, ThumbsUp, ThumbsUp]) 1300 1300 ?tu =
      (?S 1202 [ThumbsUp, ThumbsUp, ThumbsUp, ThumbsUp], Silent)"
    by (simp add: process_thumbsUp pushGesture_def majority_concrete)
  have s5: "processResults (?S 1202 [ThumbsUp, ThumbsUp, ThumbsUp, ThumbsUp]) 2002 2003 ?tu =
      (?S 1202 [ThumbsUp, ThumbsUp, ThumbsUp, ThumbsUp, ThumbsUp], Silent)"
    by (simp add: process_thumbsUp pushGesture_def majority_concrete)
  have s6: "processResults (?S 1202 [ThumbsUp, ThumbsUp, ThumbsUp, ThumbsUp, ThumbsUp]) 2003 2004 ?tu =
      (?S 2004 [ThumbsUp, ThumbsUp, ThumbsUp, ThumbsUp, ThumbsUp], CalledWith ?ev)"
    by (simp add: process_thumbsUp pushGesture_def majority_concrete)
  show ?thesis
    unfolding sustainedCalls_def s0
    by (simp only: emissionTimes_silent [OF s1] emissionTimes_silent [OF s2]
        emissionTimes_emit [OF s3] emissionTimes_silent [OF s4] emissionTimes_silent [OF s5]
        emissionTimes_emit [OF s6] emissionTimes.simps(1) RecognizerState.simps)
qed

theorem cooldown_debounce_witness:
  "emissionTimes (detectGesture initialState) sustainedCalls = [1202, 2004] \<and>
   (2004::int) - 1202 > 800 \<and>
   snd (processResults trackingState 1200 1202 (handResult thumbsUpFrame)) =
     CalledWith \<lparr>gr_type = ThumbsUp, gr_confidence = calculateConfidence thumbsUpFrame,
        gr_landmarks = thumbsUpFrame\<rparr> \<and>
   snd (processResults (trackingState\<lparr>lastGestureTime := 1202\<rparr>) 2002 2003 (handResult thumbsUpFrame)) = Silent"
proof -
  have calls: "\<forall>c \<in> set sustainedCalls. fst c \<le> fst (snd c)"
    by (simp add: sustainedCalls_def)
  have cand: "getMostFrequentGesture (pushGesture (gestureBuffer trackingState) ThumbsUp) = Some ThumbsUp"
    by (simp add: trackingState_def pushGesture_def majority_concrete)
  have ev: "snd (processResults trackingState 1200 1202 (handResult thumbsUpFrame)) =
     CalledWith \<lparr>gr_type = ThumbsUp, gr_confidence = calculateConfidence thumbsUpFrame,
        gr_landmarks = thumbsUpFrame\<rparr>"
    by (simp add: process_thumbsUp trackingState_def pushGesture_def majority_concrete)
  from cooldown_debounce [where calls = sustainedCalls and st = "detectGesture initialState"] calls have "emissionTimes (detectGesture initialState) sustainedCalls ! 1
      - emissionTimes (detectGesture initialState) sustainedCalls ! 0 > 800"
    by (simp add: emissionTimes_sustained)
  moreover from cooldown_debounce [where st = "trackingState\<lparr>lastGestureTime := 1202\<rparr>"
      and nowCheck = 2002 and nowStamp = 2003 and r = "handResult thumbsUpFrame"] have "snd (processResults (trackingState\<lparr>lastGestureTime := 1202\<rparr>) 2002 2003
      (handResult thumbsUpFrame)) = Silent"
    by (simp add: process_thumbsUp trackingState_def pushGesture_def majority_concrete)
  ultimately show ?thesis
    by (simp add: emissionTimes_sustained ev)
qed

text \<open>
  C10: an emission writes only the time of the last emission. From a reachable state,
  a call that emits leaves the state with the frame's label pushed (the oldest entry
  dropped beyond five) and the time stored; the buffer after the call is the same
  whatever the clock says, that is whether the call emits or not; and when the next
  frame has the emitted label and comes more than 800 ms later, it emits that label
  again from the buffer as it stands, with only that frame's label pushed.
\<close>

theorem emission_frame_effect:
  assumes "reachable st" and "processResults st nowCheck nowStamp r = (st', CalledWith ev)"
  shows "(\<exists>lms others g. multiHandLandmarks r = Some (lms # others) \<and>
            classifyGesture lms (handednessOf r) = Inr g \<and> g \<noteq> Unknown \<and>
            st' = st\<lparr>gestureBuffer := pushGesture (gestureBuffer st) g, lastGestureTime := nowStamp\<rparr>) \<and>
         (\<forall>nc' ns'. gestureBuffer (fst (processResults st nc' ns' r)) = gestureBuffer st') \<and>
         (\<forall>nc' ns' r' lms' others'.
            multiHandLandmarks r' = Some (lms' # others') \<and>
            classifyGesture lms' (handednessOf r') = Inr (gr_type ev) \<and>
            nc' - nowStamp > 800 \<longrightarrow>
            (\<exists>ev'. processResults st' nc' ns' r' =
                (st'\<lparr>gestureBuffer := pushGesture (gestureBuffer st') (gr_type ev), lastGestureTime := ns'\<rparr>,
                 CalledWith ev') \<and> gr_type ev' = gr_type ev))"
proof -
  from processResults_CalledWith [OF assms(2)] obtain lms others g where
    cb: "onResultsCallback st" and hand: "multiHandLandmarks r = Some (lms # others)"
    and cl: "classifyGesture lms (handednessOf r) = Inr g" and g: "g \<noteq> Unknown"
    and cand: "getMostFrequentGesture (pushGesture (gestureBuffer st) g) = Some (gr_type ev)"
    and st': "st' = st\<lparr>gestureBuffer := pushGesture (gestureBuffer st) g, lastGestureTime := nowStamp\<rparr>"
    by blast
  have first: "\<exists>lms others g. multiHandLandmarks r = Some (lms # others) \<and>
            classifyGesture lms (handednessOf r) = Inr g \<and> g \<noteq> Unknown \<and>
            st' = st\<lparr>gestureBuffer := pushGesture (gestureBuffer st) g, lastGestureTime := nowStamp\<rparr>"
    using hand cl g st' by blast
  have second: "\<forall>nc' ns'. gestureBuffer (fst (processResults st nc' ns' r)) = gestureBuffer st'"
    using g cl by (simp add: processResults_hand [OF cb hand] st' split: option.splits)
  have len: "length (gestureBuffer st') \<le> 5"
    using reachable_buffer [OF assms(1)] by (simp add: st' length_pushGesture)
  have cnt: "3 \<le> count_list (gestureBuffer st') (gr_type ev)"
    using getMostFrequentGesture_Some [OF cand] by (simp add: st')
  have ne: "gr_type ev \<noteq> Unknown"
    using getMostFrequentGesture_Some [OF cand] set_pushGesture [of "gestureBuffer st" g] g
      reachable_buffer [OF assms(1)] by auto
  have again: "getMostFrequentGesture (pushGesture (gestureBuffer st') (gr_type ev)) = Some (gr_type ev)"
    by (rule getMostFrequentGesture_majority)
       (use cnt count_pushGesture [of "gestureBuffer st'" "gr_type ev"] len length_pushGesture in auto)
  have cb': "onResultsCallback st'" and last': "lastGestureTime st' = nowStamp"
    using cb by (simp_all add: st')
  have third: "\<forall>nc' ns' r' lms' others'.
            multiHandLandmarks r' = Some (lms' # others') \<and>
            classifyGesture lms' (handednessOf r') = Inr (gr_type ev) \<and>
            nc' - nowStamp > 800 \<longrightarrow>
            (\<exists>ev'. processResults st' nc' ns' r' =
                (st'\<lparr>gestureBuffer := pushGesture (gestureBuffer st') (gr_type ev), lastGestureTime := ns'\<rparr>,
                 CalledWith ev') \<and> gr_type ev' = gr_type ev)"
  proof (intro allI impI)
    fix nc' ns' r' lms' others'
    assume a: "multiHandLandmarks r' = Some (lms' # others') \<and>
            classifyGesture lms' (handednessOf r') = Inr (gr_type ev) \<and> nc' - nowStamp > 800"
    then show "\<exists>ev'. processResults st' nc' ns' r' =
                (st'\<lparr>gestureBuffer := pushGesture (gestureBuffer st') (gr_type ev), lastGestureTime := ns'\<rparr>,
                 CalledWith ev') \<and> gr_type ev' = gr_type ev"
      using ne again last'
      by (simp add: processResults_hand [OF cb', of r' lms' others'])
  qed
  from first second third show ?thesis by blast
qed

theorem emission_frame_effect_witness:
  "reachable trackingState \<and>
   processResults trackingState 1200 1202 (handResult thumbsUpFrame) =
     (\<lparr>lastGestureTime = 1202, gestureBuffer = [ThumbsUp, ThumbsUp, ThumbsUp], onResultsCallback = True\<rparr>,
      CalledWith \<lparr>gr_type = ThumbsUp, gr_confidence = calculateConfidence thumbsUpFrame,
        gr_landmarks = thumbsUpFrame\<rparr>) \<and>
   processResults trackingState 500 501 (handResult thumbsUpFrame) =
     (\<lparr>lastGestureTime = 0, gestureBuffer = [ThumbsUp, ThumbsUp, ThumbsUp], onResultsCallback = True\<rparr>,
      Silent) \<and>
   processResults
     \<lparr>lastGestureTime = 1202, gestureBuffer = [ThumbsUp, ThumbsUp, ThumbsUp], onResultsCallback = True\<rparr>
     2003 2004 (handResult thumbsUpFrame) =
     (\<lparr>lastGestureTime = 2004, gestureBuffer = [ThumbsUp, ThumbsUp, ThumbsUp, ThumbsUp],
        onResultsCallback = True\<rparr>,
      CalledWith \<lparr>gr_type = ThumbsUp, gr_confidence = calculateConfidence thumbsUpFrame,
        gr_landmarks = thumbsUpFrame\<rparr>)"
proof -
  let ?st' = "\<lparr>lastGestureTime = 1202, gestureBuffer = [ThumbsUp, ThumbsUp, ThumbsUp],
      onResultsCallback = True\<rparr>"
  let ?ev = "\<lparr>gr_type = ThumbsUp, gr_confidence = calculateConfidence thumbsUpFrame,
      gr_landmarks = thumbsUpFrame\<rparr>"
  have emit: "processResults trackingState 1200 1202 (handResult thumbsUpFrame) = (?st', CalledWith ?ev)"
    by (simp add: process_thumbsUp trackingState_def pushGesture_def majority_concrete)
  have quiet: "processResults trackingState 500 501 (handResult thumbsUpFrame) =
      (\<lparr>lastGestureTime = 0, gestureBuffer = [ThumbsUp, ThumbsUp, ThumbsUp], onResultsCallback = True\<rparr>,
       Silent)"
    by (simp add: process_thumbsUp trackingState_def pushGesture_def majority_concrete)
  note resume = emission_frame_effect [OF reachable_trackingState emit, THEN conjunct2,
      THEN conjunct2, THEN spec, THEN spec, THEN spec, THEN spec, THEN spec, THEN mp]
  have "\<exists>ev'. processResults ?st' 2003 2004 (handResult thumbsUpFrame) =
      (?st'\<lparr>gestureBuffer := pushGesture (gestureBuffer ?st') (gr_type ?ev), lastGestureTime := 2004\<rparr>,
       CalledWith ev') \<and> gr_type ev' = gr_type ?ev"
  proof (rule resume)
    show "multiHandLandmarks (handResult thumbsUpFrame) = Some (thumbsUpFrame # []) \<and>
        classifyGesture thumbsUpFrame (handednessOf (handResult thumbsUpFrame)) = Inr (gr_type ?ev) \<and>
        2003 - 1202 > (800::int)"
      by (simp add: handResult_simps classify_thumbsUpFrame)
  qed
  then have again: "processResults ?st' 2003 2004 (handResult thumbsUpFrame) =
      (\<lparr>lastGestureTime = 2004, gestureBuffer = [ThumbsUp, ThumbsUp, ThumbsUp, ThumbsUp],
         onResultsCallback = True\<rparr>, CalledWith ?ev)"
    by (simp add: process_thumbsUp pushGesture_def majority_concrete)
  from reachable_trackingState emit quiet again show ?thesis by (simp only: simp_thms)
qed

text \<open>
  C1, as the code has it: a frame that the classifier calls \<^verbatim>\<open>'unknown'\<close> is passed
  over. The call changes nothing in the recognizer (the buffer keeps its labels, the
  time of the last emission stays) and does not call the callback.
\<close>

theorem unknown_frame_leaves_state:
  assumes "multiHandLandmarks r = Some (lms # others)"
    and "classifyGesture lms (handednessOf r) = Inr Unknown"
  shows "processResults st nowCheck nowStamp r = (st, if onResultsCallback st then Silent else NoCallback)"
  using assms
  by (cases "onResultsCallback st") (simp_all add: processResults_hand, simp add: processResults_def)

theorem unknown_frame_leaves_state_witness:
  "multiHandLandmarks (handResult thumbFlatFrame) = Some [thumbFlatFrame] \<and>
   classifyGesture thumbFlatFrame (handednessOf (handResult thumbFlatFrame)) = Inr Unknown \<and>
   processResults trackingState 1200 1200 (handResult thumbFlatFrame) = (trackingState, Silent)"
  using unknown_frame_leaves_state [of "handResult thumbFlatFrame" thumbFlatFrame "[]" trackingState 1200 1200]
  by (simp add: handResult_simps classify_thumbFlatFrame trackingState_def)

text \<open>
  C1 as stated fails: from the reachable state with two buffered labels, a frame
  classified \<^verbatim>\<open>'unknown'\<close> leaves a buffer that is not empty.
\<close>

theorem unknown_frame_keeps_buffer:
  "reachable trackingState \<and>
   classifyGesture thumbFlatFrame (handednessOf (handResult thumbFlatFrame)) = Inr Unknown \<and>
   gestureBuffer (fst (processResults trackingState 1200 1200 (handResult thumbFlatFrame))) \<noteq> []"
proof -
  have "gestureBuffer trackingState \<noteq> []" by (simp add: trackingState_def)
  then show ?thesis
    by (simp only: process_flat fst_conv handResult_simps classify_thumbFlatFrame
        reachable_trackingState simp_thms)
qed

text \<open>
  C2, as the code has it: the landmark count is not checked. On a frame of fewer than
  21 landmarks the classifier reads a missing landmark and \<^verbatim>\<open>processResults\<close>
  throws a \<^verbatim>\<open>TypeError\<close> (when a callback is registered), having changed nothing
  and called nothing; a frame of more than 21 landmarks is not rejected, it gets the
  label of its first 21 landmarks.
\<close>

theorem short_frame_throws:
  "(multiHandLandmarks r = Some (lms # others) \<and> length lms < 21 \<longrightarrow>
      processResults st nowCheck nowStamp r = (st, if onResultsCallback st then Thrown TypeError else NoCallback)) \<and>
   (21 < length lms \<longrightarrow>
      (\<exists>g. classifyGesture lms h = Inr g) \<and> classifyGesture lms h = classifyGesture (take 21 lms) h)"
proof (intro conjI impI)
  assume a: "multiHandLandmarks r = Some (lms # others) \<and> length lms < 21"
  show "processResults st nowCheck nowStamp r = (st, if onResultsCallback st then Thrown TypeError else NoCallback)"
  proof (cases "onResultsCallback st")
    case True
    with a show ?thesis by (simp add: processResults_hand [of st r lms others] classifyGesture_short)
  next
    case False
    then show ?thesis by (simp add: processResults_def)
  qed
next
  assume "21 < length lms"
  then show "\<exists>g. classifyGesture lms h = Inr g" by (simp add: classifyGesture_returns)
next
  assume "21 < length lms"
  then show "classifyGesture lms h = classifyGesture (take 21 lms) h" by (rule classifyGesture_take)
qed

theorem short_frame_throws_witness:
  "length shortFrame < 21 \<and>
   processResults trackingState 1200 1200 (handResult shortFrame) = (trackingState, Thrown TypeError) \<and>
   21 < length (thumbsUpFrame @ [pt 0 0]) \<and>
   classifyGesture (thumbsUpFrame @ [pt 0 0]) ''Right'' = Inr ThumbsUp"
  using short_frame_throws [where r = "handResult shortFrame" and lms = shortFrame and others = "[]"
      and st = trackingState and nowCheck = 1200 and nowStamp = 1200]
    short_frame_throws [where lms = "thumbsUpFrame @ [pt 0 0]" and h = "''Right''"]
  by (simp add: handResult_simps thumbsUpFrame_facts shortFrame_def trackingState_def classify_thumbsUpFrame)

text \<open>
  C2 as stated fails: the frame of 20 landmarks makes the call throw, and the buffer of
  the reachable state it was made in stays as it was, not empty.
\<close>

theorem short_frame_not_rejected:
  "reachable trackingState \<and> length shortFrame = 20 \<and>
   processResults trackingState 1200 1200 (handResult shortFrame) = (trackingState, Thrown TypeError) \<and>
   gestureBuffer trackingState \<noteq> []"
proof -
  have "gestureBuffer trackingState \<noteq> []" "length shortFrame = 20"
    by (simp_all add: trackingState_def shortFrame_def)
  then show ?thesis
    by (simp only: process_short reachable_trackingState simp_thms)
qed

section \<open>Properties of the OK rule\<close>

text \<open>
  The square root is only compared with a positive threshold, which is a comparison of
  squares; these equations make the two OK tests computable.
\<close>

lemma sqrt_less_iff: "0 < c \<Longrightarrow> sqrt a < c \<longleftrightarrow> a < c ^ 2"
  by (metis real_sqrt_less_iff real_sqrt_abs abs_of_pos)

lemma tipsWithin_code [code]:
  "tipsWithin lms d \<longleftrightarrow>
     0 < d \<and> (lm_x (lms ! 4) - lm_x (lms ! 8)) ^ 2 + (lm_y (lms ! 4) - lm_y (lms ! 8)) ^ 2 < d ^ 2"
proof (cases "0 < d")
  case True
  then show ?thesis by (simp add: tipsWithin_def sqrt_less_iff)
next
  case False
  have "0 \<le> sqrt ((lm_x (lms ! 4) - lm_x (lms ! 8)) ^ 2 + (lm_y (lms ! 4) - lm_y (lms ! 8)) ^ 2)"
    by simp
  with False show ?thesis unfolding tipsWithin_def by linarith
qed

lemma sqrt_less_thresholds:
  "sqrt a < 0.05 \<longleftrightarrow> a < 0.05 ^ 2" "sqrt a < 0.08 \<longleftrightarrow> a < 0.08 ^ 2"
  by (rule sqrt_less_iff, simp)+

lemma isOkGesture_code [code]:
  "isOkGesture landmarks =
     (let thumbTip = getLandmark landmarks 4;
          indexTip = getLandmark landmarks 8
      in bindE (readX thumbTip) (\<lambda>tx.
         bindE (readX indexTip) (\<lambda>ix.
         bindE (readY thumbTip) (\<lambda>ty.
         bindE (readY indexTip) (\<lambda>iy.
         bindE (readY (getLandmark landmarks 12)) (\<lambda>y12.
         bindE (readY (getLandmark landmarks 10)) (\<lambda>y10.
         bindE (readY (getLandmark landmarks 16)) (\<lambda>y16.
         bindE (readY (getLandmark landmarks 14)) (\<lambda>y14.
         bindE (readY (getLandmark landmarks 20)) (\<lambda>y20.
         bindE (readY (getLandmark landmarks 18)) (\<lambda>y18.
           Inr ((tx - ix) ^ 2 + (ty - iy) ^ 2 < 0.05 ^ 2 \<and> (y12 < y10 \<or> y16 < y14 \<or> y20 < y18)))))))))))))"
  by (simp only: isOkGesture_def sqrt_less_thresholds Let_def)

lemma isOkGestureSimplified_code [code]:
  "isOkGestureSimplified landmarks =
     (let thumbTip = getLandmark landmarks 4;
          indexTip = getLandmark landmarks 8;
          middleTip = getLandmark landmarks 12;
          ringTip = getLandmark landmarks 16;
          pinkyTip = getLandmark landmarks 20
      in bindE (readX thumbTip) (\<lambda>tx.
         bindE (readX indexTip) (\<lambda>ix.
         bindE (readY thumbTip) (\<lambda>ty.
         bindE (readY indexTip) (\<lambda>iy.
         bindE (readY middleTip) (\<lambda>y12.
         bindE (readY (getLandmark landmarks 10)) (\<lambda>y10.
         bindE (readY ringTip) (\<lambda>y16.
         bindE (readY (getLandmark landmarks 14)) (\<lambda>y14.
         bindE (readY pinkyTip) (\<lambda>y20.
         bindE (readY (getLandmark landmarks 18)) (\<lambda>y18.
           Inr ((tx - ix) ^ 2 + (ty - iy) ^ 2 < 0.08 ^ 2 \<and>
                length (filter (\<lambda>b. b) [y12 < y10, y16 < y14, y20 < y18]) \<ge> 2))))))))))))"
  by (simp only: isOkGestureSimplified_def sqrt_less_thresholds Let_def)

lemma getFingersUpSimplified_long:
  assumes "21 \<le> length lms"
  shows "getFingersUpSimplified lms h =
     Inr [fingerBit (thumbOut lms), fingerBit (fingerAbove lms 8 6 5),
          fingerBit (fingerAbove lms 12 10 9), fingerBit (fingerAbove lms 16 14 13),
          fingerBit (fingerAbove lms 20 18 17)]"
  using assms
  by (simp add: getFingersUpSimplified_def fingerUpSimplified_def getLandmark_def bindE_def
      thumbOut_def fingerAbove_def fingerBit_def Let_def)

lemma isOkGestureSimplified_long:
  "21 \<le> length lms \<Longrightarrow> isOkGestureSimplified lms = Inr (tipsWithin lms 0.08 \<and> twoAbovePip lms)"
  by (simp add: isOkGestureSimplified_def getLandmark_def bindE_def tipsWithin_def tipAbovePip_def
      twoAbovePip_def Let_def)

lemma classifyGesture_OkSign_iff:
  assumes "21 \<le> length lms"
  shows "classifyGesture lms h = Inr OkSign \<longleftrightarrow>
     thumbExtended lms h \<and> fingerExtended lms 8 6 5 \<and>
     \<not> (fingerExtended lms 12 10 9 \<and> fingerExtended lms 16 14 13 \<and> fingerExtended lms 20 18 17) \<and>
     tipsWithin lms 0.05 \<and> someAbovePip lms"
  unfolding classifyGesture_def getFingersUp_long [OF assms] isThumbsUp_long [OF assms]
    isOkGesture_long [OF assms] someAbovePip_def
  by (cases "thumbExtended lms h"; cases "fingerExtended lms 8 6 5"; cases "fingerExtended lms 12 10 9";
      cases "fingerExtended lms 16 14 13"; cases "fingerExtended lms 20 18 17")
     (simp_all add: bindE_def fingerBit_def)

text \<open>
  C3, as the code has it. On a frame of 21 landmarks the reference classifier answers
  OK exactly when thumb and index are both up by the finger tests, not all five fingers
  are up, thumb tip and index tip are closer than 0.05, and at least one of the middle,
  ring and pinky tips is above its PIP joint. The simplified classifier answers OK
  exactly when none of its six earlier rules applies, the two tips are closer than 0.08
  and at least two of the three tips are above their PIP joints.
\<close>

theorem ok_sign_rule:
  assumes "length lms = 21"
  shows "(classifyGesture lms h = Inr OkSign \<longleftrightarrow>
           (\<exists>fingersUp. getFingersUp lms fingerTips fingerPips fingerMcps h = Inr fingersUp \<and>
              fingersUp ! 0 = 1 \<and> fingersUp ! 1 = 1 \<and>
              foldl (\<lambda>sum finger. sum + finger) 0 fingersUp \<noteq> 5 \<and>
              tipsWithin lms 0.05 \<and> someAbovePip lms)) \<and>
         (classifyGesture_simplified lms h = Inr OkSign \<longleftrightarrow>
           (\<exists>fingersUp fingerCount. getFingersUpSimplified lms h = Inr fingersUp \<and>
              fingerCount = foldl (\<lambda>sum finger. sum + finger) 0 fingersUp \<and>
              fingerCount \<noteq> 0 \<and> fingerCount \<noteq> 5 \<and>
              \<not> (fingersUp ! 0 = 1 \<and> fingerCount = 1) \<and>
              \<not> (fingersUp ! 1 = 1 \<and> fingerCount = 1) \<and>
              \<not> (fingersUp ! 1 = 1 \<and> fingersUp ! 2 = 1 \<and> fingerCount = 2) \<and>
              \<not> (fingersUp ! 1 = 1 \<and> fingersUp ! 4 = 1 \<and> fingerCount = 2) \<and>
              tipsWithin lms 0.08 \<and> twoAbovePip lms))"
proof -
  from assms have len: "21 \<le> length lms" by simp
  have ref: "classifyGesture lms h = Inr OkSign \<longleftrightarrow>
           (\<exists>fingersUp. getFingersUp lms fingerTips fingerPips fingerMcps h = Inr fingersUp \<and>
              fingersUp ! 0 = 1 \<and> fingersUp ! 1 = 1 \<and>
              foldl (\<lambda>sum finger. sum + finger) 0 fingersUp \<noteq> 5 \<and>
              tipsWithin lms 0.05 \<and> someAbovePip lms)"
    unfolding classifyGesture_OkSign_iff [OF len] getFingersUp_long [OF len]
    by (cases "thumbExtended lms h"; cases "fingerExtended lms 8 6 5"; cases "fingerExtended lms 12 10 9";
      cases "fingerExtended lms 16 14 13"; cases "fingerExtended lms 20 18 17")
     (simp_all add: fingerBit_def)
  have simpl: "classifyGesture_simplified lms h = Inr OkSign \<longleftrightarrow>
           (\<exists>fingersUp fingerCount. getFingersUpSimplified lms h = Inr fingersUp \<and>
              fingerCount = foldl (\<lambda>sum finger. sum + finger) 0 fingersUp \<and>
              fingerCount \<noteq> 0 \<and> fingerCount \<noteq> 5 \<and>
              \<not> (fingersUp ! 0 = 1 \<and> fingerCount = 1) \<and>
              \<not> (fingersUp ! 1 = 1 \<and> fingerCount = 1) \<and>
              \<not> (fingersUp ! 1 = 1 \<and> fingersUp ! 2 = 1 \<and> fingerCount = 2) \<and>
              \<not> (fingersUp ! 1 = 1 \<and> fingersUp ! 4 = 1 \<and> fingerCount = 2) \<and>
              tipsWithin lms 0.08 \<and> twoAbovePip lms)"
    unfolding classifyGesture_simplified_def getFingersUpSimplified_long [OF len]
      isOkGestureSimplified_long [OF len]
    by (cases "thumbOut lms"; cases "fingerAbove lms 8 6 5"; cases "fingerAbove lms 12 10 9";
      cases "fingerAbove lms 16 14 13"; cases "fingerAbove lms 20 18 17")
     (simp_all add: bindE_def fingerBit_def)
  from ref simpl show ?thesis by (rule conjI)
qed

lemma okOneFrame_facts:
  "length okOneFrame = 21" "thumbExtended okOneFrame ''Right''" "fingerExtended okOneFrame 8 6 5"
  "\<not> fingerExtended okOneFrame 12 10 9" "\<not> fingerExtended okOneFrame 16 14 13"
  "\<not> fingerExtended okOneFrame 20 18 17" "tipsWithin okOneFrame 0.05"
  "someAbovePip okOneFrame" "\<not> twoAbovePip okOneFrame"
  by (simp_all add: okOneFrame_def pt_def thumbExtended_def fingerExtended_def tipsWithin_code
      someAbovePip_def twoAbovePip_def tipAbovePip_def power2_eq_square)

lemma fistCloseFrame_facts:
  "length fistCloseFrame = 21" "\<not> thumbExtended fistCloseFrame ''Right''"
  "\<not> fingerExtended fistCloseFrame 8 6 5"
  "\<not> fingerExtended fistCloseFrame 12 10 9" "\<not> fingerExtended fistCloseFrame 16 14 13"
  "\<not> fingerExtended fistCloseFrame 20 18 17"
  "\<not> thumbOut fistCloseFrame" "\<not> fingerAbove fistCloseFrame 8 6 5"
  "\<not> fingerAbove fistCloseFrame 12 10 9" "\<not> fingerAbove fistCloseFrame 16 14 13"
  "\<not> fingerAbove fistCloseFrame 20 18 17"
  "tipsWithin fistCloseFrame 0.05" "tipsWithin fistCloseFrame 0.08"
  "twoAbovePip fistCloseFrame"
  by (simp_all add: fistCloseFrame_def pt_def thumbExtended_def fingerExtended_def tipsWithin_code
      thumbOut_def fingerAbove_def twoAbovePip_def tipAbovePip_def)

lemma okThreeFrame_facts:
  "length okThreeFrame = 21"
  "\<not> thumbOut okThreeFrame" "\<not> fingerAbove okThreeFrame 8 6 5"
  "fingerAbove okThreeFrame 12 10 9" "fingerAbove okThreeFrame 16 14 13"
  "fingerAbove okThreeFrame 20 18 17"
  "tipsWithin okThreeFrame 0.08"
  "twoAbovePip okThreeFrame"
  by (simp_all add: okThreeFrame_def pt_def tipsWithin_code
      thumbOut_def fingerAbove_def twoAbovePip_def tipAbovePip_def)

theorem ok_sign_rule_witness:
  "length okOneFrame = 21 \<and> classifyGesture okOneFrame ''Right'' = Inr OkSign \<and>
   length okThreeFrame = 21 \<and> classifyGesture_simplified okThreeFrame ''Right'' = Inr OkSign"
proof -
  have fs: "getFingersUp okOneFrame fingerTips fingerPips fingerMcps ''Right'' = Inr [1, 1, 0, 0, 0]"
    by (simp add: getFingersUp_long okOneFrame_facts(1-6) fingerBit_def)
  have fs': "getFingersUpSimplified okThreeFrame ''Right'' = Inr [0, 0, 1, 1, 1]"
    by (simp add: getFingersUpSimplified_long okThreeFrame_facts(1-6) fingerBit_def)
  have a: "classifyGesture okOneFrame ''Right'' = Inr OkSign"
    unfolding ok_sign_rule [OF okOneFrame_facts(1), of "''Right''", THEN conjunct1] fs
    using okOneFrame_facts(7,8) by simp
  have b: "classifyGesture_simplified okThreeFrame ''Right'' = Inr OkSign"
    unfolding ok_sign_rule [OF okThreeFrame_facts(1), of "''Right''", THEN conjunct2] fs'
    using okThreeFrame_facts(7,8) by simp
  from a b show ?thesis by (simp only: okOneFrame_facts okThreeFrame_facts simp_thms)
qed

text \<open>
  C3 as stated fails in both directions: the reference classifier answers OK on a frame
  with a single one of the three fingers above its PIP joint; and a frame with the two
  tips together and two of the three fingers above their PIP joints is a fist for both
  classifiers.
\<close>

theorem ok_sign_not_exactly:
  "length okOneFrame = 21 \<and> classifyGesture okOneFrame ''Right'' = Inr OkSign \<and>
   \<not> twoAbovePip okOneFrame \<and>
   length fistCloseFrame = 21 \<and> tipsWithin fistCloseFrame 0.05 \<and> tipsWithin fistCloseFrame 0.08 \<and>
   twoAbovePip fistCloseFrame \<and>
   classifyGesture fistCloseFrame ''Right'' = Inr Fist \<and>
   classifyGesture_simplified fistCloseFrame ''Right'' = Inr Fist"
proof -
  have "classifyGesture okOneFrame ''Right'' = Inr OkSign"
    unfolding classifyGesture_OkSign_iff [OF eq_refl [OF okOneFrame_facts(1) [symmetric]]]
    by (simp only: okOneFrame_facts simp_thms)
  moreover have "classifyGesture fistCloseFrame ''Right'' = Inr Fist"
    by (simp add: classifyGesture_def getFingersUp_long fistCloseFrame_facts bindE_def fingerBit_def)
  moreover have "classifyGesture_simplified fistCloseFrame ''Right'' = Inr Fist"
    by (simp add: classifyGesture_simplified_def getFingersUpSimplified_long fistCloseFrame_facts
        bindE_def fingerBit_def)
  ultimately show ?thesis
    by (simp only: okOneFrame_facts fistCloseFrame_facts simp_thms)
qed

section \<open>Properties of the confidence\<close>

lemma confidenceLoop_replicate:
  "confidenceLoop (replicate n p) (a, b) =
     (if \<bar>case lm_z p of None \<Rightarrow> 0 | Some v \<Rightarrow> v\<bar> < 0.1 then a + n else a,
      if lm_x p > 0.1 \<and> lm_x p < 0.9 \<and> lm_y p > 0.1 \<and> lm_y p < 0.9 then b + n else b)"
  by (induction n arbitrary: a b) (auto simp: Let_def)

lemma confidenceLoop_simplified_replicate:
  "confidenceLoop_simplified (replicate n p) (a, b) =
     (if lm_x p > 0.1 \<and> lm_x p < 0.9 \<and> lm_y p > 0.1 \<and> lm_y p < 0.9 then a + n else a,
      if \<bar>case lm_z p of None \<Rightarrow> 0 | Some v \<Rightarrow> v\<bar> < 0.2 then b + n else b)"
  by (induction n arbitrary: a b) (auto simp: Let_def)

text \<open>
  C5: on every frame of 21 landmarks the confidence is a number between 0.5 and 0.95,
  in the reference revision and in the simplified one (whose lower clamp is 0.6). The
  frames with all landmarks in a corner and with all landmarks in the centre are among
  them.
\<close>

theorem confidence_bounds:
  assumes "length lms = 21"
  shows "(\<exists>c. calculateConfidence lms = Some c \<and> 0.5 \<le> c \<and> c \<le> 0.95) \<and>
         (\<exists>c. calculateConfidence_simplified lms = Some c \<and> 0.5 \<le> c \<and> c \<le> 0.95)"
proof -
  obtain stabilityScore visibilityScore
    where loop: "confidenceLoop lms (0, 0) = (stabilityScore, visibilityScore)"
    by fastforce
  obtain visibilityScore' stabilityScore'
    where loop': "confidenceLoop_simplified lms (0, 0) = (visibilityScore', stabilityScore')"
    by fastforce
  have clamp: "\<And>lo hi c :: real. lo \<le> hi \<Longrightarrow> lo \<le> max lo (min hi c) \<and> max lo (min hi c) \<le> hi"
    by (simp add: max_def min_def)
  define x where "x = real stabilityScore / 21 * 0.6 + real visibilityScore / 21 * 0.4"
  define y where "y = 0.7 + real visibilityScore' / 21 * 0.2 + real stabilityScore' / 21 * 0.1"
  have x: "calculateConfidence lms = Some (max 0.5 (min 0.95 x))"
    using assms by (simp add: calculateConfidence_def loop Let_def x_def)
  have y: "calculateConfidence_simplified lms = Some (max 0.6 (min 0.95 y))"
    using assms by (simp add: calculateConfidence_simplified_def loop' Let_def y_def)
  have "(0.5::real) \<le> max 0.5 (min 0.95 x) \<and> max 0.5 (min 0.95 x) \<le> 0.95"
    by (rule clamp) simp
  moreover have "(0.6::real) \<le> max 0.6 (min 0.95 y) \<and> max 0.6 (min 0.95 y) \<le> 0.95"
    by (rule clamp) simp
  ultimately show ?thesis
    unfolding x y by auto
qed

lemma conf_values:
  "calculateConfidence edgeFrame = Some 0.6" "calculateConfidence centredFrame = Some 0.95"
  "calculateConfidence_simplified edgeFrame = Some 0.8"
  "calculateConfidence_simplified centredFrame = Some 0.95"
  by (simp_all add: calculateConfidence_def calculateConfidence_simplified_def edgeFrame_def
      centredFrame_def confidenceLoop_replicate confidenceLoop_simplified_replicate pt_def Let_def)

theorem confidence_bounds_witness:
  "length edgeFrame = 21 \<and> calculateConfidence edgeFrame = Some 0.6 \<and>
   calculateConfidence_simplified edgeFrame = Some 0.8 \<and>
   length centredFrame = 21 \<and> calculateConfidence centredFrame = Some 0.95 \<and>
   calculateConfidence_simplified centredFrame = Some 0.95"
proof -
  have len: "length edgeFrame = 21" "length centredFrame = 21"
    by (simp_all add: edgeFrame_def centredFrame_def)
  from confidence_bounds [OF len(1)] confidence_bounds [OF len(2)] show ?thesis
    by (simp only: conf_values len simp_thms)
qed

end
